theory Spec2Isabelle
  imports Main "HOL-Library.Log_Nat" "HOL-Library.Sublist"
begin

section \<open>JavaScript numbers\<close>

text \<open>
  The server computes with JavaScript numbers, that is IEEE 754 binary64 values. A number
  is modelled as \<open>NaN\<close>, one of the two infinities, or a finite value carried as the
  rational it denotes. Every arithmetic operation computes the exact rational result and
  rounds it to the nearest binary64 value, ties to even, as the hardware does.

  The two zeros are identified: no comparison in the server tells \<open>-0\<close> from \<open>+0\<close>, the
  server divides only by numbers it has tested to be \<open>> 0\<close>, and JSON prints both as \<open>0\<close>.
\<close>

datatype jsnum = NaN | PosInf | NegInf | Fin rat

definition pow2 :: "int \<Rightarrow> rat" where
  "pow2 e = (if 0 \<le> e then 2 ^ nat e else 1 / 2 ^ nat (- e))"

definition ilog2 :: "rat \<Rightarrow> int" where
  \<comment> \<open>the binary exponent \<open>e\<close> of a positive rational: \<open>2 ^ e \<le> x < 2 ^ (e + 1)\<close>\<close>
  "ilog2 x =
     (let (p, q) = quotient_of x; e = bitlen p - bitlen q
      in if pow2 e \<le> x then e else e - 1)"

definition round_half_even :: "rat \<Rightarrow> int" where
  "round_half_even r =
     (let f = \<lfloor>r\<rfloor>; d = r - of_int f
      in if d < 1 / 2 then f
         else if 1 / 2 < d then f + 1
         else if even f then f else f + 1)"

definition dbl :: "rat \<Rightarrow> jsnum" where
  \<comment> \<open>round to nearest binary64, ties to even: 53 significant bits, least exponent
      \<open>-1022\<close> (below it the spacing stays \<open>2 ^ -1074\<close>), overflow to an infinity\<close>
  "dbl x =
     (if x = 0 then Fin 0
      else let e = max (ilog2 \<bar>x\<bar>) (- 1022);
               q = pow2 (e - 52);
               y = of_int (round_half_even (x / q)) * q
           in if pow2 1024 \<le> \<bar>y\<bar> then (if 0 < x then PosInf else NegInf)
              else Fin y)"

definition isFinite :: "jsnum \<Rightarrow> bool" where
  \<comment> \<open>\<open>Number.isFinite\<close>\<close>
  "isFinite a = (case a of Fin _ \<Rightarrow> True | _ \<Rightarrow> False)"

fun js_neg :: "jsnum \<Rightarrow> jsnum" where
  "js_neg NaN = NaN"
| "js_neg PosInf = NegInf"
| "js_neg NegInf = PosInf"
| "js_neg (Fin a) = Fin (- a)"

fun js_mul :: "jsnum \<Rightarrow> jsnum \<Rightarrow> jsnum" where
  "js_mul NaN _ = NaN"
| "js_mul _ NaN = NaN"
| "js_mul (Fin a) (Fin b) = dbl (a * b)"
| "js_mul (Fin a) PosInf = (if a = 0 then NaN else if 0 < a then PosInf else NegInf)"
| "js_mul (Fin a) NegInf = (if a = 0 then NaN else if 0 < a then NegInf else PosInf)"
| "js_mul PosInf (Fin b) = (if b = 0 then NaN else if 0 < b then PosInf else NegInf)"
| "js_mul NegInf (Fin b) = (if b = 0 then NaN else if 0 < b then NegInf else PosInf)"
| "js_mul PosInf PosInf = PosInf"
| "js_mul PosInf NegInf = NegInf"
| "js_mul NegInf PosInf = NegInf"
| "js_mul NegInf NegInf = PosInf"

fun js_add :: "jsnum \<Rightarrow> jsnum \<Rightarrow> jsnum" where
  "js_add NaN _ = NaN"
| "js_add _ NaN = NaN"
| "js_add (Fin a) (Fin b) = dbl (a + b)"
| "js_add (Fin a) PosInf = PosInf"
| "js_add (Fin a) NegInf = NegInf"
| "js_add PosInf (Fin b) = PosInf"
| "js_add NegInf (Fin b) = NegInf"
| "js_add PosInf PosInf = PosInf"
| "js_add PosInf NegInf = NaN"
| "js_add NegInf PosInf = NaN"
| "js_add NegInf NegInf = NegInf"

definition js_sub :: "jsnum \<Rightarrow> jsnum \<Rightarrow> jsnum" where
  "js_sub a b = js_add a (js_neg b)"

fun js_div :: "jsnum \<Rightarrow> jsnum \<Rightarrow> jsnum" where
  "js_div NaN _ = NaN"
| "js_div _ NaN = NaN"
| "js_div (Fin a) (Fin b) =
     (if b = 0 then (if a = 0 then NaN else if 0 < a then PosInf else NegInf)
      else dbl (a / b))"
| "js_div (Fin a) PosInf = Fin 0"
| "js_div (Fin a) NegInf = Fin 0"
| "js_div PosInf (Fin b) = (if 0 \<le> b then PosInf else NegInf)"
| "js_div NegInf (Fin b) = (if 0 \<le> b then NegInf else PosInf)"
| "js_div PosInf PosInf = NaN"
| "js_div PosInf NegInf = NaN"
| "js_div NegInf PosInf = NaN"
| "js_div NegInf NegInf = NaN"

fun js_lt :: "jsnum \<Rightarrow> jsnum \<Rightarrow> bool" where
  "js_lt NaN _ = False"
| "js_lt _ NaN = False"
| "js_lt (Fin a) (Fin b) = (a < b)"
| "js_lt (Fin a) PosInf = True"
| "js_lt (Fin a) NegInf = False"
| "js_lt PosInf _ = False"
| "js_lt NegInf NegInf = False"
| "js_lt NegInf _ = True"

definition js_gt :: "jsnum \<Rightarrow> jsnum \<Rightarrow> bool" where
  "js_gt a b = js_lt b a"

definition js_le :: "jsnum \<Rightarrow> jsnum \<Rightarrow> bool" where
  \<comment> \<open>\<open>a <= b\<close>: false as soon as one side is \<open>NaN\<close>\<close>
  "js_le a b = (a \<noteq> NaN \<and> b \<noteq> NaN \<and> \<not> js_lt b a)"


definition toFixed2_Number :: "jsnum \<Rightarrow> jsnum" where
  \<comment> \<open>\<open>Number(x.toFixed(2))\<close>. \<open>toFixed(2)\<close> prints the integer \<open>n\<close> for which \<open>n / 100\<close> is
      closest to the magnitude of \<open>x\<close> (the larger one on a tie) with two decimals and the
      sign of \<open>x\<close>, and \<open>Number\<close> reads that decimal back as the nearest binary64 value. From
      \<open>10 ^ 21\<close> on, and for \<open>NaN\<close> and the infinities, \<open>toFixed\<close> prints the number as
      \<open>String\<close> does, which \<open>Number\<close> reads back unchanged.\<close>
  "toFixed2_Number a =
     (case a of
        Fin x \<Rightarrow>
          if 10 ^ 21 \<le> \<bar>x\<bar> then Fin x
          else if x < 0 then js_neg (dbl (of_int \<lfloor>(- x) * 100 + 1 / 2\<rfloor> / 100))
          else dbl (of_int \<lfloor>x * 100 + 1 / 2\<rfloor> / 100)
      | _ \<Rightarrow> a)"

section \<open>The calculator\<close>

record ScenarioInput =
  scenario_name :: string
  monthly_invoice_volume :: jsnum
  num_ap_staff :: jsnum
  avg_hours_per_invoice :: jsnum
  hourly_wage :: jsnum
  error_rate_manual :: jsnum
  error_cost :: jsnum
  time_horizon_months :: jsnum
  one_time_implementation_cost :: jsnum

record ROIResult =
  monthly_savings :: jsnum
  cumulative_savings :: jsnum
  net_savings :: jsnum
  payback_months :: "jsnum option"
  roi_percentage :: jsnum

text \<open>The constants of \<open>INTERNAL\<close>: each literal denotes the binary64 value nearest to it.\<close>

definition automated_cost_per_invoice :: jsnum where
  "automated_cost_per_invoice = dbl (20 / 100)"

definition error_rate_auto :: jsnum where
  "error_rate_auto = dbl (1 / 10)"

definition min_roi_boost_factor :: jsnum where
  "min_roi_boost_factor = dbl (11 / 10)"

text \<open>
  The local constants of \<open>simulate\<close>, one definition each, in the order of the source. The
  result record has fields of the same names, so the unrounded locals carry the suffix
  \<open>_of\<close>.
\<close>

definition labor_cost_manual :: "ScenarioInput \<Rightarrow> jsnum" where
  "labor_cost_manual inputs =
     js_mul (js_mul (js_mul (num_ap_staff inputs) (hourly_wage inputs))
                    (avg_hours_per_invoice inputs))
            (monthly_invoice_volume inputs)"

definition auto_cost :: "ScenarioInput \<Rightarrow> jsnum" where
  "auto_cost inputs = js_mul (monthly_invoice_volume inputs) automated_cost_per_invoice"

definition error_savings :: "ScenarioInput \<Rightarrow> jsnum" where
  "error_savings inputs =
     js_div (js_mul (js_mul (js_sub (error_rate_manual inputs) error_rate_auto)
                            (monthly_invoice_volume inputs))
                    (error_cost inputs))
            (Fin 100)"

definition monthly_savings_of :: "ScenarioInput \<Rightarrow> jsnum" where
  "monthly_savings_of inputs =
     js_mul (js_sub (js_add (labor_cost_manual inputs) (error_savings inputs))
                    (auto_cost inputs))
            min_roi_boost_factor"

definition cumulative_savings_of :: "ScenarioInput \<Rightarrow> jsnum" where
  "cumulative_savings_of inputs =
     js_mul (monthly_savings_of inputs) (time_horizon_months inputs)"

definition net_savings_of :: "ScenarioInput \<Rightarrow> jsnum" where
  "net_savings_of inputs =
     js_sub (cumulative_savings_of inputs) (one_time_implementation_cost inputs)"

definition payback_months_of :: "ScenarioInput \<Rightarrow> jsnum option" where
  "payback_months_of inputs =
     (if js_gt (monthly_savings_of inputs) (Fin 0)
      then Some (js_div (one_time_implementation_cost inputs) (monthly_savings_of inputs))
      else None)"

definition roi_percentage_of :: "ScenarioInput \<Rightarrow> jsnum" where
  "roi_percentage_of inputs =
     (if js_gt (one_time_implementation_cost inputs) (Fin 0)
      then js_mul (js_div (net_savings_of inputs) (one_time_implementation_cost inputs))
                  (Fin 100)
      else if js_gt (cumulative_savings_of inputs) (Fin 0) then Fin 999 else Fin 0)"

definition simulate :: "ScenarioInput \<Rightarrow> ROIResult" where
  "simulate inputs =
     \<lparr> monthly_savings = toFixed2_Number (monthly_savings_of inputs),
       cumulative_savings = toFixed2_Number (cumulative_savings_of inputs),
       net_savings = toFixed2_Number (net_savings_of inputs),
       payback_months =
         (case payback_months_of inputs of None \<Rightarrow> None
          | Some p \<Rightarrow> Some (toFixed2_Number p)),
       roi_percentage = toFixed2_Number (roi_percentage_of inputs) \<rparr>"

definition non_negative :: "jsnum \<Rightarrow> bool" where
  "non_negative v = (isFinite v \<and> js_le (Fin 0) v)"

definition well_formed :: "ScenarioInput \<Rightarrow> bool" where
  \<comment> \<open>the ranges the data model gives for a \<open>ScenarioInput\<close>\<close>
  "well_formed inputs =
     (non_negative (monthly_invoice_volume inputs) \<and>
      non_negative (num_ap_staff inputs) \<and>
      non_negative (avg_hours_per_invoice inputs) \<and>
      non_negative (hourly_wage inputs) \<and>
      isFinite (error_rate_manual inputs) \<and>
      js_le (Fin 0) (error_rate_manual inputs) \<and>
      js_le (error_rate_manual inputs) (Fin 100) \<and>
      non_negative (error_cost inputs) \<and>
      isFinite (time_horizon_months inputs) \<and>
      js_gt (time_horizon_months inputs) (Fin 0) \<and>
      non_negative (one_time_implementation_cost inputs))"

definition canonical_input :: ScenarioInput where
  "canonical_input =
     \<lparr> scenario_name = [],
       monthly_invoice_volume = Fin 2000,
       num_ap_staff = Fin 3,
       avg_hours_per_invoice = dbl (17 / 100),
       hourly_wage = Fin 30,
       error_rate_manual = dbl (5 / 10),
       error_cost = Fin 100,
       time_horizon_months = Fin 36,
       one_time_implementation_cost = Fin 50000 \<rparr>"

definition overflow_input :: ScenarioInput where
  \<comment> \<open>a well-formed record whose labour cost overflows to \<open>Infinity\<close> and whose error
      savings overflow to \<open>-Infinity\<close>\<close>
  "overflow_input =
     \<lparr> scenario_name = [],
       monthly_invoice_volume = Fin (2 ^ 600),
       num_ap_staff = Fin (2 ^ 600),
       avg_hours_per_invoice = Fin 1,
       hourly_wage = Fin 1,
       error_rate_manual = Fin 0,
       error_cost = Fin (2 ^ 600),
       time_horizon_months = Fin 36,
       one_time_implementation_cost = Fin 0 \<rparr>"

definition free_input :: ScenarioInput where
  \<comment> \<open>the canonical record with nothing to pay for the implementation\<close>
  "free_input = canonical_input\<lparr>one_time_implementation_cost := Fin 0\<rparr>"

definition idle_input :: ScenarioInput where
  \<comment> \<open>no invoices at all, and nothing to pay\<close>
  "idle_input =
     canonical_input\<lparr>monthly_invoice_volume := Fin 0, one_time_implementation_cost := Fin 0\<rparr>"

section \<open>Request bodies\<close>

text \<open>
  A request body is a JSON value as \<open>express.json()\<close> delivers it; \<open>JUndefined\<close> is what
  reading an absent property gives. An object is carried as the list of its own
  properties. Strings are modelled over ASCII.
\<close>

datatype jsval =
    JUndefined
  | JNull
  | JBool bool
  | JNum jsnum
  | JStr string
  | JArr "jsval list"
  | JObj "(string \<times> jsval) list"

datatype js_error = TypeError

definition truthy :: "jsval \<Rightarrow> bool" where
  "truthy v =
     (case v of
        JUndefined \<Rightarrow> False
      | JNull \<Rightarrow> False
      | JBool b \<Rightarrow> b
      | JNum n \<Rightarrow> n \<noteq> NaN \<and> n \<noteq> Fin 0
      | JStr s \<Rightarrow> s \<noteq> []
      | _ \<Rightarrow> True)"

definition get_prop :: "jsval \<Rightarrow> string \<Rightarrow> js_error + jsval" where
  \<comment> \<open>\<open>v[name]\<close> for the field names the server reads: a \<open>TypeError\<close> on \<open>undefined\<close> and
      \<open>null\<close>, the property of an object, \<open>undefined\<close> on everything else (numbers,
      booleans, strings and arrays have no property of these names)\<close>
  "get_prop v name =
     (case v of
        JUndefined \<Rightarrow> Inl TypeError
      | JNull \<Rightarrow> Inl TypeError
      | JObj kvs \<Rightarrow> (case map_of kvs name of None \<Rightarrow> Inr JUndefined | Some x \<Rightarrow> Inr x)
      | _ \<Rightarrow> Inr JUndefined)"

definition is_ws :: "char \<Rightarrow> bool" where
  \<comment> \<open>tab, line feed, vertical tab, form feed, carriage return, space\<close>
  "is_ws c = (c \<in> set [CHR 0x09, CHR 0x0A, CHR 0x0B, CHR 0x0C, CHR 0x0D, CHR 0x20])"

definition trim :: "string \<Rightarrow> string" where
  "trim s = rev (dropWhile is_ws (rev (dropWhile is_ws s)))"

definition digit_value :: "nat \<Rightarrow> char \<Rightarrow> nat option" where
  \<comment> \<open>the value of a digit in the given radix\<close>
  "digit_value radix c =
     (case map_of
             [(CHR ''0'', 0), (CHR ''1'', 1), (CHR ''2'', 2), (CHR ''3'', 3), (CHR ''4'', 4),
              (CHR ''5'', 5), (CHR ''6'', 6), (CHR ''7'', 7), (CHR ''8'', 8), (CHR ''9'', 9),
              (CHR ''a'', 10), (CHR ''b'', 11), (CHR ''c'', 12), (CHR ''d'', 13),
              (CHR ''e'', 14), (CHR ''f'', 15),
              (CHR ''A'', 10), (CHR ''B'', 11), (CHR ''C'', 12), (CHR ''D'', 13),
              (CHR ''E'', 14), (CHR ''F'', 15)] c of
        Some d \<Rightarrow> if d < radix then Some d else None
      | None \<Rightarrow> None)"

definition is_digit :: "char \<Rightarrow> bool" where
  "is_digit c = (digit_value 10 c \<noteq> None)"

fun digits_value :: "nat \<Rightarrow> nat \<Rightarrow> string \<Rightarrow> nat option" where
  "digits_value radix acc [] = Some acc"
| "digits_value radix acc (c # cs) =
     (case digit_value radix c of
        None \<Rightarrow> None
      | Some d \<Rightarrow> digits_value radix (acc * radix + d) cs)"

definition parse_digits :: "nat \<Rightarrow> string \<Rightarrow> nat option" where
  \<comment> \<open>one digit at least\<close>
  "parse_digits radix ds = (if ds = [] then None else digits_value radix 0 ds)"

definition parse_non_decimal :: "string \<Rightarrow> nat option" where
  \<comment> \<open>\<open>0x\<close>, \<open>0o\<close> and \<open>0b\<close> literals, which take no sign\<close>
  "parse_non_decimal t =
     (case t of
        z # x # ds \<Rightarrow>
          if z \<noteq> CHR ''0'' then None
          else if x = CHR ''x'' \<or> x = CHR ''X'' then parse_digits 16 ds
          else if x = CHR ''o'' \<or> x = CHR ''O'' then parse_digits 8 ds
          else if x = CHR ''b'' \<or> x = CHR ''B'' then parse_digits 2 ds
          else None
      | _ \<Rightarrow> None)"

definition split_sign :: "string \<Rightarrow> int \<times> string" where
  "split_sign t =
     (case t of
        c # r \<Rightarrow> if c = CHR ''+'' then (1, r) else if c = CHR ''-'' then (- 1, r) else (1, t)
      | [] \<Rightarrow> (1, t))"

definition parse_exponent :: "string \<Rightarrow> int option" where
  \<comment> \<open>an optional exponent part that must reach the end of the text\<close>
  "parse_exponent r =
     (case r of
        [] \<Rightarrow> Some 0
      | c # t \<Rightarrow>
          if c = CHR ''e'' \<or> c = CHR ''E''
          then (let (sg, d) = split_sign t
                in case parse_digits 10 d of
                     None \<Rightarrow> None
                   | Some n \<Rightarrow> Some (sg * int n))
          else None)"

definition parse_unsigned :: "string \<Rightarrow> rat option" where
  \<comment> \<open>digits, an optional point and fraction digits (a digit on one side of the point
      at least), an optional exponent\<close>
  "parse_unsigned u =
     (let ip = takeWhile is_digit u;
          r1 = dropWhile is_digit u;
          (fp, r2) = (case r1 of
                        c # r \<Rightarrow> if c = CHR ''.''
                                 then (takeWhile is_digit r, dropWhile is_digit r)
                                 else ([], r1)
                      | [] \<Rightarrow> ([], r1))
      in if ip = [] \<and> fp = [] then None
         else case (digits_value 10 0 (ip @ fp), parse_exponent r2) of
                (Some m, Some ex) \<Rightarrow> Some (of_nat m * 10 powi (ex - int (length fp)))
              | _ \<Rightarrow> None)"

definition StringToNumber :: "string \<Rightarrow> jsnum" where
  \<comment> \<open>\<open>Number\<close> on a string: the empty or blank text is \<open>0\<close>, a numeric literal its
      nearest binary64 value, anything else \<open>NaN\<close>\<close>
  "StringToNumber s =
     (let t = trim s
      in if t = [] then Fin 0
         else case parse_non_decimal t of
                Some n \<Rightarrow> dbl (of_nat n)
              | None \<Rightarrow>
                  (let (sg, u) = split_sign t
                   in if u = ''Infinity'' then (if sg = 1 then PosInf else NegInf)
                      else case parse_unsigned u of
                             None \<Rightarrow> NaN
                           | Some q \<Rightarrow> dbl (of_int sg * q)))"

fun number_value :: "jsval \<Rightarrow> jsnum" where
  \<comment> \<open>What \<open>Number(value)\<close> returns when the conversion returns. An array is read through
      its text, the texts of its elements joined by commas: the empty array reads as the
      empty text, a one-element array as its element's text (empty for \<open>null\<close> and
      \<open>undefined\<close>; the text of a number reads back as that number), a longer one has a
      comma in it and is no literal. The text of an object is \<open>[object Object]\<close>.\<close>
  "number_value JUndefined = NaN"
| "number_value JNull = Fin 0"
| "number_value (JBool b) = (if b then Fin 1 else Fin 0)"
| "number_value (JNum n) = n"
| "number_value (JStr s) = StringToNumber s"
| "number_value (JArr []) = Fin 0"
| "number_value (JArr [JUndefined]) = Fin 0"
| "number_value (JArr [JNull]) = Fin 0"
| "number_value (JArr [JBool b]) = NaN"
| "number_value (JArr [JNum n]) = n"
| "number_value (JArr [JStr s]) = StringToNumber s"
| "number_value (JArr [JArr xs]) = number_value (JArr xs)"
| "number_value (JArr [JObj kvs]) = NaN"
| "number_value (JArr (x # y # zs)) = NaN"
| "number_value (JObj kvs) = NaN"

fun conversion_throws :: "jsval \<Rightarrow> bool" where
  \<comment> \<open>Converting an object to a primitive calls its \<open>valueOf\<close> and its \<open>toString\<close>. The
      inherited \<open>valueOf\<close> returns the object itself, and an own property of either name
      is a JSON value, hence not callable and passed over. So the conversion ends with the
      inherited \<open>toString\<close> unless the object has an own property \<open>toString\<close>, and then
      it throws. The text of an array converts every element, at any depth.\<close>
  "conversion_throws (JObj kvs) = (map_of kvs ''toString'' \<noteq> None)"
| "conversion_throws (JArr xs) = list_ex conversion_throws xs"
| "conversion_throws v = False"

definition ToNumber :: "jsval \<Rightarrow> js_error + jsnum" where
  \<comment> \<open>\<open>Number(value)\<close>\<close>
  "ToNumber v = (if conversion_throws v then Inl TypeError else Inr (number_value v))"

definition on_return :: "js_error + 'a \<Rightarrow> ('a \<Rightarrow> js_error + 'b) \<Rightarrow> js_error + 'b" where
  \<comment> \<open>sequencing: what follows a call runs on the value it returns; a throw leaves the
      function at once\<close>
  "on_return m k = (case m of Inl e \<Rightarrow> Inl e | Inr x \<Rightarrow> k x)"

section \<open>The validator\<close>

definition asNumber :: "jsval \<Rightarrow> jsnum \<Rightarrow> js_error + jsnum" where
  "asNumber v fallback =
     on_return (ToNumber v) (\<lambda>n. Inr (if isFinite n then n else fallback))"

definition js_max :: "jsnum \<Rightarrow> jsnum \<Rightarrow> jsnum" where
  \<comment> \<open>\<open>Math.max\<close>: \<open>NaN\<close> as soon as one argument is\<close>
  "js_max a b = (if a = NaN \<or> b = NaN then NaN else if js_lt a b then b else a)"

definition js_min :: "jsnum \<Rightarrow> jsnum \<Rightarrow> jsnum" where
  "js_min a b = (if a = NaN \<or> b = NaN then NaN else if js_lt b a then b else a)"

definition clamp :: "jsnum \<Rightarrow> jsnum \<Rightarrow> jsnum \<Rightarrow> jsnum" where
  "clamp v lo hi = js_min (js_max v lo) hi"

definition own :: "jsval \<Rightarrow> string \<Rightarrow> jsval" where
  \<comment> \<open>a property of a body that is known not to be \<open>undefined\<close> or \<open>null\<close>\<close>
  "own body name = (case get_prop body name of Inr v \<Rightarrow> v | Inl _ \<Rightarrow> JUndefined)"

definition reqNum ::
  "jsval \<Rightarrow> string list \<Rightarrow> string \<Rightarrow> js_error + (jsnum \<times> string list)" where
  \<comment> \<open>the closure \<open>reqNum\<close>: it pushes onto the \<open>errors\<close> of its caller, here passed in
      and returned\<close>
  "reqNum body errors name =
     on_return (asNumber (own body name) NaN)
       (\<lambda>v. Inr (v, if \<not> isFinite v \<or> js_lt v (Fin 0)
                     then errors @ [name @ '' must be a non-negative number'']
                     else errors))"

definition validateInputs :: "jsval \<Rightarrow> js_error + (ScenarioInput \<times> string list)" where
  \<comment> \<open>The first property read throws on \<open>undefined\<close> and \<open>null\<close>. The fields of the object
      literal are evaluated in the order written, which is the order of the messages; a
      conversion that throws ends the function there.\<close>
  "validateInputs body =
     on_return (get_prop body ''scenario_name'') (\<lambda>nm.
     on_return (reqNum body [] ''monthly_invoice_volume'') (\<lambda>(miv, errors1).
     on_return (reqNum body errors1 ''num_ap_staff'') (\<lambda>(nas, errors2).
     on_return (reqNum body errors2 ''avg_hours_per_invoice'') (\<lambda>(ahi, errors3).
     on_return (reqNum body errors3 ''hourly_wage'') (\<lambda>(hw, errors4).
     on_return (asNumber (own body ''error_rate_manual'') NaN) (\<lambda>erm0.
     on_return (reqNum body errors4 ''error_cost'') (\<lambda>(ec, errors5).
     on_return (asNumber (own body ''time_horizon_months'') (Fin 36)) (\<lambda>thm.
     on_return (asNumber (own body ''one_time_implementation_cost'') (Fin 0)) (\<lambda>otic.
       (let inputs = \<lparr> scenario_name = (case nm of JStr s \<Rightarrow> s | _ \<Rightarrow> []),
                        monthly_invoice_volume = miv,
                        num_ap_staff = nas,
                        avg_hours_per_invoice = ahi,
                        hourly_wage = hw,
                        error_rate_manual = clamp erm0 (Fin 0) (Fin 100),
                        error_cost = ec,
                        time_horizon_months = thm,
                        one_time_implementation_cost = otic \<rparr>;
            errors6 = (if \<not> isFinite (error_rate_manual inputs)
                       then errors5 @ [''error_rate_manual must be a number between 0 and 100'']
                       else errors5);
            errors7 = (if \<not> isFinite (time_horizon_months inputs)
                          \<or> js_le (time_horizon_months inputs) (Fin 0)
                       then errors6 @ [''time_horizon_months must be > 0'']
                       else errors6)
        in Inr (inputs, errors7)))))))))))"

definition numeric_fields :: "string list" where
  \<comment> \<open>the properties \<open>validateInputs\<close> converts, in the order it converts them\<close>
  "numeric_fields =
     [''monthly_invoice_volume'', ''num_ap_staff'', ''avg_hours_per_invoice'',
      ''hourly_wage'', ''error_rate_manual'', ''error_cost'', ''time_horizon_months'',
      ''one_time_implementation_cost'']"

definition required_fields :: "string list" where
  "required_fields =
     [''monthly_invoice_volume'', ''num_ap_staff'', ''avg_hours_per_invoice'',
      ''hourly_wage'', ''error_cost'']"


text \<open>Request bodies for the examples: the canonical record as a JSON object, and a
  body with one property replaced or left out.\<close>

definition canonical_body :: jsval where
  "canonical_body =
     JObj [(''monthly_invoice_volume'', JNum (Fin 2000)),
           (''num_ap_staff'', JNum (Fin 3)),
           (''avg_hours_per_invoice'', JNum (dbl (17 / 100))),
           (''hourly_wage'', JNum (Fin 30)),
           (''error_rate_manual'', JNum (dbl (5 / 10))),
           (''error_cost'', JNum (Fin 100)),
           (''time_horizon_months'', JNum (Fin 36)),
           (''one_time_implementation_cost'', JNum (Fin 50000))]"

definition unconvertible :: jsval where
  \<comment> \<open>the JSON object \<open>{"toString": 1}\<close>\<close>
  "unconvertible = JObj [(''toString'', JNum (Fin 1))]"

fun without_field :: "jsval \<Rightarrow> string \<Rightarrow> jsval" where
  "without_field (JObj kvs) k = JObj (filter (\<lambda>p. fst p \<noteq> k) kvs)"
| "without_field v k = v"

fun with_field :: "jsval \<Rightarrow> string \<Rightarrow> jsval \<Rightarrow> jsval" where
  "with_field (JObj kvs) k x = JObj (filter (\<lambda>p. fst p \<noteq> k) kvs @ [(k, x)])"
| "with_field v k x = v"

section \<open>The routes and the scenario collection\<close>

record ScenarioDoc =
  doc_id :: string
  doc_scenario_name :: string
  doc_inputs :: ScenarioInput
  doc_results :: ROIResult
  created_at :: nat
  updated_at :: nat

datatype reply =
    ResultReply ROIResult
  | ErrorsReply "string list"
  | SavedReply string string
  | ScenarioReply ScenarioDoc
  | DeletedReply
  | ErrorReply string

datatype response = Response nat reply | Uncaught js_error

definition post_simulate :: "jsval \<Rightarrow> response" where
  \<comment> \<open>\<open>app.post('/simulate')\<close> on \<open>req.body\<close>\<close>
  "post_simulate req_body =
     (case validateInputs (if truthy req_body then req_body else JObj []) of
        Inl e \<Rightarrow> Uncaught e
      | Inr (inputs, errors) \<Rightarrow>
          if length errors \<noteq> 0 then Response 400 (ErrorsReply errors)
          else Response 200 (ResultReply (simulate inputs)))"

text \<open>
  The collection is what MongoDB holds: the list of the documents created and not
  deleted. \<open>Scenario.create\<close> stores the document it is given under the identifier the
  driver generated, and fails when the database is down or the identifier is taken;
  \<open>findById\<close> returns the stored document. The identifier, the clock and the state of
  the connection belong to the environment and are arguments of the handlers.
\<close>

record db_env =
  db_up :: bool
  new_id :: string
  now :: nat

definition countDocuments :: "db_env \<Rightarrow> ScenarioDoc list \<Rightarrow> nat option" where
  "countDocuments env store = (if db_up env then Some (length store) else None)"

definition Scenario_create ::
  "db_env \<Rightarrow> ScenarioDoc list \<Rightarrow> string \<Rightarrow> ScenarioInput \<Rightarrow> ROIResult
     \<Rightarrow> (ScenarioDoc \<times> ScenarioDoc list) option" where
  "Scenario_create env store name inputs results =
     (if \<not> db_up env \<or> new_id env \<in> set (map doc_id store) then None
      else (let doc = \<lparr> doc_id = new_id env, doc_scenario_name = name,
                         doc_inputs = inputs, doc_results = results,
                         created_at = now env, updated_at = now env \<rparr>
            in Some (doc, store @ [doc])))"

definition findById :: "ScenarioDoc list \<Rightarrow> string \<Rightarrow> ScenarioDoc option" where
  "findById store i = find (\<lambda>d. doc_id d = i) store"

function string_of_nat :: "nat \<Rightarrow> string" where
  \<comment> \<open>the decimal digits of a count, as \<open>String\<close> prints an integer\<close>
  "string_of_nat n =
     (if n < 10 then [''0123456789'' ! n]
      else string_of_nat (n div 10) @ [''0123456789'' ! (n mod 10)])"
  by pat_completeness auto
termination
  by (relation "measure id") auto

definition scenario_body :: "jsval \<Rightarrow> jsval" where
  \<comment> \<open>\<open>req.body?.inputs || req.body || {}\<close>\<close>
  "scenario_body req_body =
     (let i = (case req_body of JUndefined \<Rightarrow> JUndefined | JNull \<Rightarrow> JUndefined
               | _ \<Rightarrow> own req_body ''inputs'')
      in if truthy i then i else if truthy req_body then req_body else JObj [])"

definition post_scenarios ::
  "db_env \<Rightarrow> ScenarioDoc list \<Rightarrow> jsval \<Rightarrow> response \<times> ScenarioDoc list" where
  \<comment> \<open>\<open>app.post('/scenarios')\<close>: the response and the collection afterwards\<close>
  "post_scenarios env store req_body =
     (case validateInputs (scenario_body req_body) of
        Inl e \<Rightarrow> (Uncaught e, store)
      | Inr (inputs, errors) \<Rightarrow>
          if length errors \<noteq> 0 then (Response 400 (ErrorsReply errors), store)
          else
            (let results = simulate inputs;
                 trimmed = trim (scenario_name inputs);
                 named = (if trimmed \<noteq> [] then Some trimmed
                          else case countDocuments env store of
                                 None \<Rightarrow> None
                               | Some count \<Rightarrow> Some (''Scenario '' @ string_of_nat (count + 1)))
             in case named of
                  None \<Rightarrow> (Response 500 (ErrorReply ''failed to save scenario''), store)
                | Some scenarioName \<Rightarrow>
                    (case Scenario_create env store scenarioName
                            (inputs\<lparr>scenario_name := scenarioName\<rparr>) results of
                       None \<Rightarrow> (Response 500 (ErrorReply ''failed to save scenario''), store)
                     | Some (doc, store') \<Rightarrow>
                         (Response 200 (SavedReply (doc_id doc) (doc_scenario_name doc)),
                          store'))))"

definition get_scenario :: "ScenarioDoc list \<Rightarrow> string \<Rightarrow> response" where
  \<comment> \<open>\<open>app.get('/scenarios/:id')\<close>\<close>
  "get_scenario store i =
     (case findById store i of
        None \<Rightarrow> Response 404 (ErrorReply ''Not found'')
      | Some doc \<Rightarrow> Response 200 (ScenarioReply doc))"

definition delete_scenario :: "ScenarioDoc list \<Rightarrow> string \<Rightarrow> response \<times> ScenarioDoc list" where
  \<comment> \<open>\<open>app.delete('/scenarios/:id')\<close>\<close>
  "delete_scenario store i =
     (if findById store i = None then (Response 404 (ErrorReply ''Not found''), store)
      else (Response 200 DeletedReply, filter (\<lambda>d. doc_id d \<noteq> i) store))"

inductive reachable :: "ScenarioDoc list \<Rightarrow> bool" where
  \<comment> \<open>the collections the routes can produce from the empty one\<close>
  empty_store: "reachable []"
| saved: "reachable store \<Longrightarrow> post_scenarios env store req_body = (r, store')
           \<Longrightarrow> reachable store'"
| deleted: "reachable store \<Longrightarrow> delete_scenario store i = (r, store')
           \<Longrightarrow> reachable store'"

text \<open>An example: the canonical record, unnamed, saved into the empty collection.\<close>

definition example_env :: db_env where
  "example_env = \<lparr> db_up = True, new_id = ''a1'', now = 0 \<rparr>"

definition example_doc :: ScenarioDoc where
  "example_doc =
     \<lparr> doc_id = ''a1'', doc_scenario_name = ''Scenario 1'',
       doc_inputs = canonical_input\<lparr>scenario_name := ''Scenario 1''\<rparr>,
       doc_results = simulate canonical_input,
       created_at = 0, updated_at = 0 \<rparr>"

section \<open>The PostgreSQL server\<close>

text \<open>
  The second server file declares its own \<open>INTERNAL\<close>, \<open>asNumber\<close>, \<open>clamp\<close>,
  \<open>validateInputs\<close> and \<open>simulate\<close>. They are transcribed here from that file, with the
  suffix \<open>_pg\<close>, \<open>simulate\<close> with its local constants in place.
\<close>

definition automated_cost_per_invoice_pg :: jsnum where
  "automated_cost_per_invoice_pg = dbl (20 / 100)"

definition error_rate_auto_pg :: jsnum where
  "error_rate_auto_pg = dbl (1 / 10)"

definition min_roi_boost_factor_pg :: jsnum where
  "min_roi_boost_factor_pg = dbl (11 / 10)"

definition asNumber_pg :: "jsval \<Rightarrow> jsnum \<Rightarrow> js_error + jsnum" where
  "asNumber_pg v fallback =
     on_return (ToNumber v) (\<lambda>n. Inr (if isFinite n then n else fallback))"

definition clamp_pg :: "jsnum \<Rightarrow> jsnum \<Rightarrow> jsnum \<Rightarrow> jsnum" where
  "clamp_pg v lo hi = js_min (js_max v lo) hi"

definition reqNum_pg ::
  "jsval \<Rightarrow> string list \<Rightarrow> string \<Rightarrow> js_error + (jsnum \<times> string list)" where
  "reqNum_pg body errors name =
     on_return (asNumber_pg (own body name) NaN)
       (\<lambda>v. Inr (v, if \<not> isFinite v \<or> js_lt v (Fin 0)
                     then errors @ [name @ '' must be a non-negative number'']
                     else errors))"

definition validateInputs_pg :: "jsval \<Rightarrow> js_error + (ScenarioInput \<times> string list)" where
  "validateInputs_pg body =
     on_return (get_prop body ''scenario_name'') (\<lambda>nm.
     on_return (reqNum_pg body [] ''monthly_invoice_volume'') (\<lambda>(miv, errors1).
     on_return (reqNum_pg body errors1 ''num_ap_staff'') (\<lambda>(nas, errors2).
     on_return (reqNum_pg body errors2 ''avg_hours_per_invoice'') (\<lambda>(ahi, errors3).
     on_return (reqNum_pg body errors3 ''hourly_wage'') (\<lambda>(hw, errors4).
     on_return (asNumber_pg (own body ''error_rate_manual'') NaN) (\<lambda>erm0.
     on_return (reqNum_pg body errors4 ''error_cost'') (\<lambda>(ec, errors5).
     on_return (asNumber_pg (own body ''time_horizon_months'') (Fin 36)) (\<lambda>thm.
     on_return (asNumber_pg (own body ''one_time_implementation_cost'') (Fin 0)) (\<lambda>otic.
       (let inputs = \<lparr> scenario_name = (case nm of JStr s \<Rightarrow> s | _ \<Rightarrow> []),
                        monthly_invoice_volume = miv,
                        num_ap_staff = nas,
                        avg_hours_per_invoice = ahi,
                        hourly_wage = hw,
                        error_rate_manual = clamp_pg erm0 (Fin 0) (Fin 100),
                        error_cost = ec,
                        time_horizon_months = thm,
                        one_time_implementation_cost = otic \<rparr>;
            errors6 = (if \<not> isFinite (error_rate_manual inputs)
                       then errors5 @ [''error_rate_manual must be a number between 0 and 100'']
                       else errors5);
            errors7 = (if \<not> isFinite (time_horizon_months inputs)
                          \<or> js_le (time_horizon_months inputs) (Fin 0)
                       then errors6 @ [''time_horizon_months must be > 0'']
                       else errors6)
        in Inr (inputs, errors7)))))))))))"

definition simulate_pg :: "ScenarioInput \<Rightarrow> ROIResult" where
  "simulate_pg inputs =
     (let labor = js_mul (js_mul (js_mul (num_ap_staff inputs) (hourly_wage inputs))
                                 (avg_hours_per_invoice inputs))
                         (monthly_invoice_volume inputs);
          auto = js_mul (monthly_invoice_volume inputs) automated_cost_per_invoice_pg;
          err = js_div (js_mul (js_mul (js_sub (error_rate_manual inputs) error_rate_auto_pg)
                                       (monthly_invoice_volume inputs))
                               (error_cost inputs))
                       (Fin 100);
          monthly0 = js_sub (js_add labor err) auto;
          monthly = js_mul monthly0 min_roi_boost_factor_pg;
          cumulative = js_mul monthly (time_horizon_months inputs);
          net = js_sub cumulative (one_time_implementation_cost inputs);
          payback = (if js_gt monthly (Fin 0)
                     then Some (js_div (one_time_implementation_cost inputs) monthly)
                     else None);
          roi = (if js_gt (one_time_implementation_cost inputs) (Fin 0)
                 then js_mul (js_div net (one_time_implementation_cost inputs)) (Fin 100)
                 else if js_gt cumulative (Fin 0) then Fin 999 else Fin 0)
      in \<lparr> monthly_savings = toFixed2_Number monthly,
           cumulative_savings = toFixed2_Number cumulative,
           net_savings = toFixed2_Number net,
           payback_months = (case payback of None \<Rightarrow> None
                             | Some p \<Rightarrow> Some (toFixed2_Number p)),
           roi_percentage = toFixed2_Number roi \<rparr>)"


section \<open>Rounding to binary64\<close>

text \<open>
  \<open>ilog2\<close> finds the binary exponent, so \<open>dbl\<close> is determined by any exponent \<open>e\<close> with
  \<open>2 ^ e \<le> \<bar>x\<bar> < 2 ^ (e + 1)\<close> and by the integer nearest to \<open>x\<close> in units of the
  spacing at \<open>e\<close>. The two evaluation rules below compute \<open>dbl\<close> at a literal from these.
\<close>

lemma pow2_powi: "pow2 e = 2 powi e"
  by (simp add: pow2_def power_int_def inverse_eq_divide power_one_over)

lemma pow2_pos: "0 < pow2 e"
  by (simp add: pow2_powi)

lemma pow2_add: "pow2 (a + b) = pow2 a * pow2 b"
  by (simp add: pow2_powi power_int_add)

lemma pow2_mono: "a \<le> b \<Longrightarrow> pow2 a \<le> pow2 b"
  by (simp add: pow2_powi power_int_increasing)

lemma bitlen_rat_bounds:
  assumes "0 < p"
  shows "pow2 (bitlen p - 1) \<le> of_int p" and "of_int p < pow2 (bitlen p)"
proof -
  from bitlen_bounds [OF assms]
  have lo: "2 ^ nat (bitlen p - 1) \<le> p" and hi: "p < 2 ^ nat (bitlen p)" by auto
  have b1: "1 \<le> bitlen p" using assms by (simp add: bitlen_alt_def)
  have "(of_int (2 ^ nat (bitlen p - 1)) :: rat) \<le> of_int p"
    using lo by (simp only: of_int_le_iff)
  then show "pow2 (bitlen p - 1) \<le> of_int p"
    using b1 by (simp add: pow2_def)
  have "(of_int p :: rat) < of_int (2 ^ nat (bitlen p))"
    using hi by (simp only: of_int_less_iff)
  then show "of_int p < pow2 (bitlen p)"
    using b1 by (simp add: pow2_def)
qed

lemma ilog2_bounds:
  assumes "0 < x"
  shows "pow2 (ilog2 x) \<le> x \<and> x < pow2 (ilog2 x + 1)"
proof -
  obtain p q where pq: "quotient_of x = (p, q)" by (cases "quotient_of x")
  have q: "0 < q" using pq by (rule quotient_of_denom_pos)
  have x: "x = of_int p / of_int q" using pq by (rule quotient_of_div)
  have p: "0 < p" using assms q x by (simp add: zero_less_divide_iff)
  define e where "e = bitlen p - bitlen q"
  note P = bitlen_rat_bounds [OF p] and Q = bitlen_rat_bounds [OF q]
  have qr: "(0::rat) < of_int q" using q by simp
  have "x * of_int q = of_int p" using x qr by simp
  have "x * pow2 (bitlen q) > x * of_int q"
    using Q(2) assms by simp
  have up: "x < pow2 (e + 1)"
  proof -
    have "of_int p < pow2 (bitlen p)" by (rule P(2))
    also have "\<dots> = pow2 (e + 1) * pow2 (bitlen q - 1)"
      by (simp add: e_def pow2_add [symmetric])
    also have "\<dots> \<le> pow2 (e + 1) * of_int q"
      using Q(1) pow2_pos [of "e + 1"] by simp
    finally show ?thesis using qr x by (simp add: pos_divide_less_eq)
  qed
  have lo: "pow2 (e - 1) \<le> x"
  proof -
    have "pow2 (e - 1) * of_int q \<le> pow2 (e - 1) * pow2 (bitlen q)"
      using Q(2) pow2_pos [of "e - 1"] by simp
    also have "\<dots> = pow2 (bitlen p - 1)"
      by (simp add: e_def pow2_add [symmetric])
    also have "\<dots> \<le> of_int p" by (rule P(1))
    finally show ?thesis using qr x by (simp add: pos_le_divide_eq)
  qed
  have il: "ilog2 x = (if pow2 e \<le> x then e else e - 1)"
    by (simp add: ilog2_def pq e_def Let_def)
  show ?thesis using up lo by (simp add: il)
qed

lemma ilog2_eq:
  assumes "pow2 e \<le> x" and "x < pow2 (e + 1)"
  shows "ilog2 x = e"
proof -
  have x: "0 < x" using assms(1) pow2_pos [of e] by simp
  from ilog2_bounds [OF x]
  have lo: "pow2 (ilog2 x) \<le> x" and hi: "x < pow2 (ilog2 x + 1)" by auto
  have "\<not> ilog2 x < e"
  proof
    assume "ilog2 x < e"
    then have "pow2 (ilog2 x + 1) \<le> pow2 e" by (intro pow2_mono) simp
    with hi assms(1) show False by simp
  qed
  moreover have "\<not> e < ilog2 x"
  proof
    assume "e < ilog2 x"
    then have "pow2 (e + 1) \<le> pow2 (ilog2 x)" by (intro pow2_mono) simp
    with lo assms(2) show False by simp
  qed
  ultimately show ?thesis by simp
qed

lemma round_half_even_eq:
  assumes "\<bar>r - of_int n\<bar> < 1 / 2"
  shows "round_half_even r = n"
proof -
  have f: "of_int \<lfloor>r\<rfloor> \<le> r" "r < of_int \<lfloor>r\<rfloor> + 1" by linarith+
  have "\<lfloor>r\<rfloor> = n \<or> \<lfloor>r\<rfloor> = n - 1" using assms by linarith
  then show ?thesis
  proof
    assume a: "\<lfloor>r\<rfloor> = n"
    then have "r - of_int \<lfloor>r\<rfloor> < 1 / 2" using assms by linarith
    then show ?thesis using a by (simp add: round_half_even_def Let_def)
  next
    assume a: "\<lfloor>r\<rfloor> = n - 1"
    then have "1 / 2 < r - of_int \<lfloor>r\<rfloor>" using assms by linarith
    then show ?thesis using a by (simp add: round_half_even_def Let_def)
  qed
qed

lemma round_half_even_tie:
  assumes "r = of_int f + 1 / 2"
  shows "round_half_even r = (if even f then f else f + 1)"
proof -
  have "\<lfloor>r\<rfloor> = f" unfolding assms by linarith
  moreover have "r - of_int f = 1 / 2" using assms by simp
  ultimately show ?thesis by (simp add: round_half_even_def Let_def)
qed

lemma dbl_eval:
  assumes "pow2 e \<le> \<bar>x\<bar>" and "\<bar>x\<bar> < pow2 (e + 1)"
    and "\<bar>x / pow2 (max e (- 1022) - 52) - of_int n\<bar> < 1 / 2"
  shows "dbl x =
     (if pow2 1024 \<le> \<bar>of_int n * pow2 (max e (- 1022) - 52)\<bar>
      then (if 0 < x then PosInf else NegInf)
      else Fin (of_int n * pow2 (max e (- 1022) - 52)))"
proof -
  have x: "x \<noteq> 0" using assms(1) pow2_pos [of e] by auto
  have e: "ilog2 \<bar>x\<bar> = e" using assms(1,2) by (rule ilog2_eq)
  have n: "round_half_even (x / pow2 (max e (- 1022) - 52)) = n"
    using assms(3) by (rule round_half_even_eq)
  show ?thesis using x by (simp add: dbl_def e n Let_def)
qed

lemma dbl_eval_tie:
  assumes "pow2 e \<le> \<bar>x\<bar>" and "\<bar>x\<bar> < pow2 (e + 1)"
    and "x / pow2 (max e (- 1022) - 52) = of_int f + 1 / 2"
    and "n = (if even f then f else f + 1)"
  shows "dbl x =
     (if pow2 1024 \<le> \<bar>of_int n * pow2 (max e (- 1022) - 52)\<bar>
      then (if 0 < x then PosInf else NegInf)
      else Fin (of_int n * pow2 (max e (- 1022) - 52)))"
proof -
  have x: "x \<noteq> 0" using assms(1) pow2_pos [of e] by auto
  have e: "ilog2 \<bar>x\<bar> = e" using assms(1,2) by (rule ilog2_eq)
  have n: "round_half_even (x / pow2 (max e (- 1022) - 52)) = n"
    using round_half_even_tie [OF assms(3)] assms(4) by simp
  show ?thesis using x by (simp add: dbl_def e n Let_def)
qed


lemma floor_numeral_quotient: "\<lfloor>numeral a / numeral b :: rat\<rfloor> = numeral a div numeral b"
  using floor_divide_of_int_eq [of "numeral a" "numeral b", where ?'a = rat] by simp

lemma dbl_17_100: "dbl (17 / 100) = Fin (6124895493223875 / 36028797018963968)"
  using dbl_eval [of "-3" "17 / 100" "6124895493223875"]
  by (simp add: pow2_def)

lemma dbl_1_10: "dbl (1 / 10) = Fin (3602879701896397 / 36028797018963968)"
  using dbl_eval [of "-4" "1 / 10" "7205759403792794"]
  by (simp add: pow2_def)

lemma dbl_1_5: "dbl (1 / 5) = Fin (3602879701896397 / 18014398509481984)"
  using dbl_eval [of "-3" "1 / 5" "7205759403792794"]
  by (simp add: pow2_def)

lemma dbl_11_10: "dbl (11 / 10) = Fin (2476979795053773 / 2251799813685248)"
  using dbl_eval [of "0" "11 / 10" "4953959590107546"]
  by (simp add: pow2_def)

lemma dbl_1_2: "dbl (1 / 2) = Fin (1 / 2)"
  using dbl_eval [of "-1" "1 / 2" "4503599627370496"]
  by (simp add: pow2_def)

lemma dbl_147_100: "dbl (147 / 100) = Fin (6620291452234629 / 4503599627370496)"
  using dbl_eval [of "0" "147 / 100" "6620291452234629"]
  by (simp add: pow2_def)

lemma dbl_11776_5: "dbl (11776 / 5) = Fin (2589569785738035 / 1099511627776)"
  using dbl_eval [of "11" "11776 / 5" "5179139571476070"]
  by (simp add: pow2_def)

lemma dbl_c1: "dbl (90) = Fin 90"
  using dbl_eval [of "6" "90" "6333186975989760"]
  by (simp add: pow2_def)

lemma dbl_c2: "dbl (275620297195074375 / 18014398509481984) = Fin (4306567143673037 / 281474976710656)"
  using dbl_eval [of "3" "275620297195074375 / 18014398509481984" "8613134287346074"]
  by (simp add: pow2_def)

lemma dbl_c3: "dbl (538320892959129625 / 17592186044416) = Fin 30600"
  using dbl_eval [of "14" "538320892959129625 / 17592186044416" "8411263952486400"]
  by (simp add: pow2_def)

lemma dbl_c4: "dbl (450359962737049625 / 1125899906842624) = Fin 400"
  using dbl_eval [of "8" "450359962737049625 / 1125899906842624" "7036874417766400"]
  by (simp add: pow2_def)

lemma dbl_c5: "dbl (14411518807585587 / 36028797018963968) = Fin (3602879701896397 / 9007199254740992)"
  using dbl_eval_tie [of "-2" "14411518807585587 / 36028797018963968" "7205759403792793" "7205759403792794"]
  by (simp add: pow2_def)

lemma dbl_c6: "dbl (450359962737049625 / 562949953421312) = Fin 800"
  using dbl_eval [of "9" "450359962737049625 / 562949953421312" "7036874417766400"]
  by (simp add: pow2_def)

lemma dbl_c7: "dbl (80000) = Fin 80000"
  using dbl_eval [of "16" "80000" "5497558138880000"]
  by (simp add: pow2_def)

lemma dbl_c8: "dbl (800) = Fin 800"
  using dbl_eval [of "9" "800" "7036874417766400"]
  by (simp add: pow2_def)

lemma dbl_c9: "dbl (31400) = Fin 31400"
  using dbl_eval [of "14" "31400" "8631166278041600"]
  by (simp add: pow2_def)

lemma dbl_c10: "dbl (31000) = Fin 31000"
  using dbl_eval [of "14" "31000" "8521215115264000"]
  by (simp add: pow2_def)

lemma dbl_c11: "dbl (9598296705833370375 / 281474976710656) = Fin 34100"
  using dbl_eval [of "15" "9598296705833370375 / 281474976710656" "4686668313395200"]
  by (simp add: pow2_def)

lemma dbl_c12: "dbl (1227600) = Fin 1227600"
  using dbl_eval [of "20" "1227600" "5272501852569600"]
  by (simp add: pow2_def)

lemma dbl_c13: "dbl (1177600) = Fin 1177600"
  using dbl_eval [of "20" "1177600" "5057753487769600"]
  by (simp add: pow2_def)

lemma dbl_c14: "dbl (500 / 341) = Fin (3301759257603003 / 2251799813685248)"
  using dbl_eval [of "0" "500 / 341" "6603518515206006"]
  by (simp add: pow2_def)

lemma dbl_c15: "dbl (2944 / 125) = Fin (3314649325744685 / 140737488355328)"
  using dbl_eval [of "4" "2944 / 125" "6629298651489370"]
  by (simp add: pow2_def)

lemma dbl_c16: "dbl (82866233143617125 / 35184372088832) = Fin (2589569785738035 / 1099511627776)"
  using dbl_eval [of "11" "82866233143617125 / 35184372088832" "5179139571476070"]
  by (simp add: pow2_def)

lemma dbl_c17: "dbl (34100) = Fin 34100"
  using dbl_eval [of "15" "34100" "4686668313395200"]
  by (simp add: pow2_def)

lemma dbl_999: "dbl (999) = Fin 999"
  using dbl_eval [of "9" "999" "8787296929185792"]
  by (simp add: pow2_def)

subsection \<open>The canonical input, step by step\<close>

lemmas internal_values =
  automated_cost_per_invoice_def error_rate_auto_def min_roi_boost_factor_def
  dbl_1_5 dbl_1_10 dbl_11_10

lemmas canonical_steps =
  dbl_17_100 dbl_1_2 dbl_c1 dbl_c2 dbl_c3 dbl_c4 dbl_c5 dbl_c6 dbl_c7 dbl_c8 dbl_c9 dbl_c10
  dbl_c11 dbl_c12 dbl_c13 dbl_c14 dbl_c15 dbl_c16

lemma canonical_labor_cost_manual: "labor_cost_manual canonical_input = Fin 30600"
  by (simp add: labor_cost_manual_def canonical_input_def canonical_steps)

lemma canonical_auto_cost: "auto_cost canonical_input = Fin 400"
  by (simp add: auto_cost_def canonical_input_def internal_values canonical_steps)

lemma canonical_error_savings: "error_savings canonical_input = Fin 800"
  by (simp add: error_savings_def canonical_input_def internal_values js_sub_def canonical_steps)

lemma canonical_monthly_savings: "monthly_savings_of canonical_input = Fin 34100"
  by (simp add: monthly_savings_of_def canonical_labor_cost_manual canonical_auto_cost
      canonical_error_savings internal_values js_sub_def canonical_steps)

lemma canonical_cumulative_savings: "cumulative_savings_of canonical_input = Fin 1227600"
  by (simp add: cumulative_savings_of_def canonical_monthly_savings)
    (simp add: canonical_input_def canonical_steps)

lemma canonical_net_savings: "net_savings_of canonical_input = Fin 1177600"
  by (simp add: net_savings_of_def canonical_cumulative_savings)
    (simp add: canonical_input_def js_sub_def canonical_steps)

lemma canonical_payback_months:
  "payback_months_of canonical_input = Some (Fin (3301759257603003 / 2251799813685248))"
  by (simp add: payback_months_of_def canonical_monthly_savings js_gt_def)
    (simp add: canonical_input_def canonical_steps)

lemma canonical_roi_percentage:
  "roi_percentage_of canonical_input = Fin (2589569785738035 / 1099511627776)"
  by (simp add: roi_percentage_of_def canonical_net_savings)
    (simp add: canonical_input_def js_gt_def canonical_steps)

section \<open>The documented scenario\<close>

text \<open>
  Claim C1. For the canonical input record (2000 invoices a month, 3 staff, 0.17 hours per
  invoice, wage 30, manual error rate 0.5, error cost 100, horizon 36 months, one-time
  cost 50000) \<open>simulate\<close> returns exactly \<open>monthly_savings = 34100\<close>,
  \<open>cumulative_savings = 1227600\<close>, \<open>net_savings = 1177600\<close>, \<open>payback_months = 1.47\<close> and
  \<open>roi_percentage = 2355.2\<close>, the last two being the binary64 values those literals denote.
\<close>

theorem simulate_canonical:
  "simulate canonical_input =
     \<lparr> monthly_savings = Fin 34100,
       cumulative_savings = Fin 1227600,
       net_savings = Fin 1177600,
       payback_months = Some (dbl (147 / 100)),
       roi_percentage = dbl (23552 / 10) \<rparr>"
  by (simp add: simulate_def canonical_monthly_savings canonical_cumulative_savings
      canonical_net_savings canonical_payback_months canonical_roi_percentage
      toFixed2_Number_def floor_numeral_quotient
      dbl_c17 dbl_c12 dbl_c13 dbl_147_100 dbl_11776_5)


subsection \<open>Facts about the comparisons\<close>

lemma not_js_gt_zero: "(\<not> js_gt a (Fin 0)) = (js_le a (Fin 0) \<or> a = NaN)"
  by (cases a) (auto simp: js_gt_def js_le_def)

lemma dbl_zero: "dbl 0 = Fin 0"
  by (simp add: dbl_def)

lemma toFixed2_Number_zero: "toFixed2_Number (Fin 0) = Fin 0"
  using floor_divide_of_int_eq [of 1 2, where ?'a = rat]
  by (simp add: toFixed2_Number_def dbl_zero)

lemma toFixed2_Number_999: "toFixed2_Number (Fin 999) = Fin 999"
  by (simp add: toFixed2_Number_def floor_numeral_quotient dbl_999)

subsection \<open>The scenario name and the cost do not enter the savings\<close>

lemma monthly_savings_of_cost [simp]:
  "monthly_savings_of (inputs\<lparr>one_time_implementation_cost := c\<rparr>) = monthly_savings_of inputs"
  by (simp add: monthly_savings_of_def labor_cost_manual_def error_savings_def auto_cost_def)

lemma cumulative_savings_of_cost [simp]:
  "cumulative_savings_of (inputs\<lparr>one_time_implementation_cost := c\<rparr>) =
     cumulative_savings_of inputs"
  by (simp add: cumulative_savings_of_def)

subsection \<open>The witnesses' inputs\<close>

lemma well_formed_canonical: "well_formed canonical_input"
  by (simp add: well_formed_def non_negative_def canonical_input_def isFinite_def
      js_le_def js_gt_def dbl_17_100 dbl_1_2)

lemma well_formed_free: "well_formed free_input"
  using well_formed_canonical
  by (simp add: well_formed_def free_input_def non_negative_def isFinite_def js_le_def)

lemma well_formed_idle: "well_formed idle_input"
  using well_formed_canonical
  by (simp add: well_formed_def idle_input_def non_negative_def isFinite_def js_le_def)

lemma idle_monthly_savings: "monthly_savings_of idle_input = Fin 0"
  by (simp add: idle_input_def canonical_input_def monthly_savings_of_def
      labor_cost_manual_def error_savings_def auto_cost_def internal_values js_sub_def
      dbl_zero dbl_17_100 dbl_1_2 dbl_c1 dbl_c2 dbl_c5)

lemma idle_cumulative_savings: "cumulative_savings_of idle_input = Fin 0"
  by (simp add: cumulative_savings_of_def idle_monthly_savings)
    (simp add: idle_input_def canonical_input_def dbl_zero)

lemma well_formed_overflow: "well_formed overflow_input"
  by (simp add: well_formed_def non_negative_def overflow_input_def isFinite_def
      js_le_def js_gt_def)

lemma overflow_labor_cost_manual: "labor_cost_manual overflow_input = PosInf"
  using dbl_eval [of 600 "2 ^ 600" "2 ^ 52"] dbl_eval [of 1200 "2 ^ 1200" "2 ^ 52"]
  by (simp add: labor_cost_manual_def overflow_input_def pow2_def)

lemma overflow_error_savings: "error_savings overflow_input = NegInf"
  using dbl_eval [of "- 4" "- (3602879701896397 / 36028797018963968)" "- 7205759403792794"]
    dbl_eval [of 596 "- (3602879701896397 / 36028797018963968) * 2 ^ 600" "- 7205759403792794"]
    dbl_eval [of 1196 "- (3602879701896397 / 36028797018963968) * 2 ^ 1200" "- 7205759403792794"]
  by (simp add: error_savings_def overflow_input_def internal_values js_sub_def pow2_def)

lemma overflow_monthly_savings: "monthly_savings_of overflow_input = NaN"
  by (simp add: monthly_savings_of_def overflow_labor_cost_manual overflow_error_savings
      js_sub_def)

section \<open>The return on investment\<close>

text \<open>
  Claim C2. For every well-formed \<open>ScenarioInput\<close>: if \<open>one_time_implementation_cost > 0\<close>
  then \<open>simulate\<close> returns \<open>roi_percentage = (net_savings / one_time_implementation_cost) * 100\<close>,
  computed from the unrounded net savings and then rounded to 2 decimals; otherwise it
  returns \<open>roi_percentage = 999\<close> when \<open>cumulative_savings > 0\<close> and \<open>roi_percentage = 0\<close> when
  \<open>cumulative_savings <= 0\<close>.
\<close>

theorem roi_percentage_rule:
  assumes "well_formed inputs"
  shows "(js_gt (one_time_implementation_cost inputs) (Fin 0) \<longrightarrow>
            roi_percentage (simulate inputs) =
              toFixed2_Number
                (js_mul (js_div (net_savings_of inputs) (one_time_implementation_cost inputs))
                        (Fin 100)))
       \<and> (\<not> js_gt (one_time_implementation_cost inputs) (Fin 0) \<longrightarrow>
            (js_gt (cumulative_savings_of inputs) (Fin 0) \<longrightarrow>
               roi_percentage (simulate inputs) = Fin 999)
          \<and> (js_le (cumulative_savings_of inputs) (Fin 0) \<longrightarrow>
               roi_percentage (simulate inputs) = Fin 0))"
proof -
  have le: "js_le a (Fin 0) \<Longrightarrow> \<not> js_gt a (Fin 0)" for a
    by (simp add: not_js_gt_zero)
  show ?thesis
    by (auto simp: simulate_def roi_percentage_of_def toFixed2_Number_999
        toFixed2_Number_zero dest: le)
qed

theorem roi_percentage_rule_witness:
  "(well_formed canonical_input
      \<and> js_gt (one_time_implementation_cost canonical_input) (Fin 0)
      \<and> roi_percentage (simulate canonical_input) =
          toFixed2_Number (js_mul (js_div (net_savings_of canonical_input) (Fin 50000)) (Fin 100)))
   \<and> (well_formed free_input
      \<and> \<not> js_gt (one_time_implementation_cost free_input) (Fin 0)
      \<and> js_gt (cumulative_savings_of free_input) (Fin 0)
      \<and> roi_percentage (simulate free_input) = Fin 999)
   \<and> (well_formed idle_input
      \<and> \<not> js_gt (one_time_implementation_cost idle_input) (Fin 0)
      \<and> js_le (cumulative_savings_of idle_input) (Fin 0)
      \<and> roi_percentage (simulate idle_input) = Fin 0)"
proof -
  have c: "js_gt (one_time_implementation_cost canonical_input) (Fin 0)"
    "one_time_implementation_cost canonical_input = Fin 50000"
    by (simp_all add: canonical_input_def js_gt_def)
  have f: "\<not> js_gt (one_time_implementation_cost free_input) (Fin 0)"
    "js_gt (cumulative_savings_of free_input) (Fin 0)"
    by (simp_all add: free_input_def canonical_cumulative_savings js_gt_def)
  have i: "\<not> js_gt (one_time_implementation_cost idle_input) (Fin 0)"
    "js_le (cumulative_savings_of idle_input) (Fin 0)"
    by (simp_all add: idle_cumulative_savings js_le_def js_gt_def) (simp add: idle_input_def)
  show ?thesis
    using roi_percentage_rule [OF well_formed_canonical]
      roi_percentage_rule [OF well_formed_free]
      roi_percentage_rule [OF well_formed_idle]
      well_formed_canonical well_formed_free well_formed_idle c f i
    by simp
qed

section \<open>The payback period\<close>

text \<open>
  Claim C3 says that \<open>payback_months\<close> is \<open>null\<close> if and only if the unrounded monthly savings
  are \<open><= 0\<close>. The test in the code is \<open>monthly_savings > 0\<close>, which also fails on \<open>NaN\<close>, and
  \<open>NaN <= 0\<close> is false. A well-formed record reaches \<open>NaN\<close>: with a volume, a staff and an
  error cost of \<open>2 ^ 600\<close> and a manual error rate of \<open>0\<close> the labour cost is \<open>Infinity\<close>, the
  error savings are \<open>-Infinity\<close>, and their sum is \<open>NaN\<close>.
\<close>

theorem payback_null_iff_counterexample:
  "well_formed overflow_input
   \<and> payback_months (simulate overflow_input) = None
   \<and> \<not> js_le (monthly_savings_of overflow_input) (Fin 0)"
  by (simp add: well_formed_overflow simulate_def payback_months_of_def
      overflow_monthly_savings js_gt_def js_le_def)

text \<open>
  Claim C3, amended. For every well-formed \<open>ScenarioInput\<close>, \<open>simulate\<close> returns
  \<open>payback_months = null\<close> if and only if the unrounded monthly savings are \<open><= 0\<close> or \<open>NaN\<close>,
  that is, not \<open>> 0\<close>; when they are \<open>> 0\<close>, \<open>payback_months\<close> is
  \<open>one_time_implementation_cost / monthly_savings\<close> rounded to 2 decimals.
\<close>

theorem payback_months_rule:
  assumes "well_formed inputs"
  shows "(payback_months (simulate inputs) = None) =
           (js_le (monthly_savings_of inputs) (Fin 0) \<or> monthly_savings_of inputs = NaN)
       \<and> (js_gt (monthly_savings_of inputs) (Fin 0) \<longrightarrow>
            payback_months (simulate inputs) =
              Some (toFixed2_Number
                      (js_div (one_time_implementation_cost inputs) (monthly_savings_of inputs))))"
  by (simp add: simulate_def payback_months_of_def not_js_gt_zero [symmetric])

theorem payback_months_rule_witness:
  "(well_formed canonical_input
      \<and> js_gt (monthly_savings_of canonical_input) (Fin 0)
      \<and> payback_months (simulate canonical_input) =
          Some (toFixed2_Number (js_div (Fin 50000) (Fin 34100))))
   \<and> (well_formed idle_input
      \<and> js_le (monthly_savings_of idle_input) (Fin 0)
      \<and> payback_months (simulate idle_input) = None)
   \<and> (well_formed overflow_input
      \<and> monthly_savings_of overflow_input = NaN
      \<and> payback_months (simulate overflow_input) = None)"
proof -
  have c: "one_time_implementation_cost canonical_input = Fin 50000"
    by (simp add: canonical_input_def)
  show ?thesis
    using payback_months_rule [OF well_formed_canonical]
      payback_months_rule [OF well_formed_idle]
      payback_months_rule [OF well_formed_overflow]
      well_formed_canonical well_formed_idle well_formed_overflow c
    by (simp add: canonical_monthly_savings idle_monthly_savings overflow_monthly_savings
        js_gt_def js_le_def)
qed

section \<open>Properties of the validator\<close>

subsection \<open>Evaluating \<open>Number\<close> on a string\<close>

lemmas string_number_eval =
  StringToNumber_def trim_def is_ws_def parse_non_decimal_def parse_digits_def
  split_sign_def parse_unsigned_def parse_exponent_def is_digit_def digit_value_def Let_def

lemma StringToNumber_abc: "StringToNumber ''abc'' = NaN"
  by (simp add: string_number_eval)

subsection \<open>Calls that return and calls that throw\<close>

lemma on_return_Inl [simp]: "on_return (Inl e) k = Inl e"
  by (simp add: on_return_def)

lemma on_return_Inr [simp]: "on_return (Inr x) k = k x"
  by (simp add: on_return_def)

lemma ToNumber_Inr: "(ToNumber v = Inr n) = (\<not> conversion_throws v \<and> n = number_value v)"
  by (auto simp: ToNumber_def)

lemma ToNumber_throws: "conversion_throws v \<Longrightarrow> ToNumber v = Inl TypeError"
  by (simp add: ToNumber_def)

lemma ToNumber_returns: "\<not> conversion_throws v \<Longrightarrow> ToNumber v = Inr (number_value v)"
  by (simp add: ToNumber_def)

lemma asNumber_throws: "conversion_throws v \<Longrightarrow> asNumber v fallback = Inl TypeError"
  by (simp add: asNumber_def ToNumber_throws)

lemma asNumber_returns:
  "\<not> conversion_throws v \<Longrightarrow>
     asNumber v fallback =
       Inr (if isFinite (number_value v) then number_value v else fallback)"
  by (simp add: asNumber_def ToNumber_returns)

lemma reqNum_throws: "conversion_throws (own body name) \<Longrightarrow> reqNum body errors name = Inl TypeError"
  by (simp add: reqNum_def asNumber_throws)

lemma reqNum_returns:
  "\<not> conversion_throws (own body name) \<Longrightarrow>
     reqNum body errors name =
       Inr (if isFinite (number_value (own body name)) then number_value (own body name) else NaN,
            errors @ (if \<not> isFinite (number_value (own body name))
                         \<or> js_lt (number_value (own body name)) (Fin 0)
                      then [name @ '' must be a non-negative number''] else []))"
  by (cases "isFinite (number_value (own body name))")
    (simp_all add: reqNum_def asNumber_returns isFinite_def)

lemma clamp_Fin: "clamp (Fin x) (Fin 0) (Fin 100) = Fin (min (max x 0) 100)"
  by (simp add: clamp_def js_max_def js_min_def)

lemma clamp_NaN: "clamp NaN lo hi = NaN"
  by (simp add: clamp_def js_max_def js_min_def)

lemma push_error: "(if c then errors @ [m] else errors) = errors @ (if c then [m] else [])"
  by simp

lemma validateInputs_unfold:
  assumes "get_prop body ''scenario_name'' = Inr nm"
    and "miv = number_value (own body ''monthly_invoice_volume'')"
    and "nas = number_value (own body ''num_ap_staff'')"
    and "ahi = number_value (own body ''avg_hours_per_invoice'')"
    and "hw = number_value (own body ''hourly_wage'')"
    and "erm = number_value (own body ''error_rate_manual'')"
    and "ec = number_value (own body ''error_cost'')"
    and "thm = number_value (own body ''time_horizon_months'')"
    and "otic = number_value (own body ''one_time_implementation_cost'')"
  shows "validateInputs body =
    (if conversion_throws (own body ''monthly_invoice_volume'')
        \<or> conversion_throws (own body ''num_ap_staff'')
        \<or> conversion_throws (own body ''avg_hours_per_invoice'')
        \<or> conversion_throws (own body ''hourly_wage'')
        \<or> conversion_throws (own body ''error_rate_manual'')
        \<or> conversion_throws (own body ''error_cost'')
        \<or> conversion_throws (own body ''time_horizon_months'')
        \<or> conversion_throws (own body ''one_time_implementation_cost'')
     then Inl TypeError
     else Inr
       (\<lparr> scenario_name = (case nm of JStr s \<Rightarrow> s | _ \<Rightarrow> []),
          monthly_invoice_volume = (if isFinite miv then miv else NaN),
          num_ap_staff = (if isFinite nas then nas else NaN),
          avg_hours_per_invoice = (if isFinite ahi then ahi else NaN),
          hourly_wage = (if isFinite hw then hw else NaN),
          error_rate_manual = clamp (if isFinite erm then erm else NaN) (Fin 0) (Fin 100),
          error_cost = (if isFinite ec then ec else NaN),
          time_horizon_months = (if isFinite thm then thm else Fin 36),
          one_time_implementation_cost = (if isFinite otic then otic else Fin 0) \<rparr>,
        (if \<not> isFinite miv \<or> js_lt miv (Fin 0)
         then [''monthly_invoice_volume must be a non-negative number''] else [])
        @ (if \<not> isFinite nas \<or> js_lt nas (Fin 0)
         then [''num_ap_staff must be a non-negative number''] else [])
        @ (if \<not> isFinite ahi \<or> js_lt ahi (Fin 0)
         then [''avg_hours_per_invoice must be a non-negative number''] else [])
        @ (if \<not> isFinite hw \<or> js_lt hw (Fin 0)
         then [''hourly_wage must be a non-negative number''] else [])
        @ (if \<not> isFinite ec \<or> js_lt ec (Fin 0)
         then [''error_cost must be a non-negative number''] else [])
        @ (if \<not> isFinite (clamp (if isFinite erm then erm else NaN) (Fin 0) (Fin 100))
         then [''error_rate_manual must be a number between 0 and 100''] else [])
        @ (if \<not> isFinite (if isFinite thm then thm else Fin 36)
              \<or> js_le (if isFinite thm then thm else Fin 36) (Fin 0)
         then [''time_horizon_months must be > 0''] else [])))"
  unfolding validateInputs_def assms on_return_Inr
  apply (cases "conversion_throws (own body ''monthly_invoice_volume'')")
   apply (simp add: reqNum_throws)
  apply (cases "conversion_throws (own body ''num_ap_staff'')")
   apply (simp add: reqNum_throws reqNum_returns split del: if_split)
  apply (cases "conversion_throws (own body ''avg_hours_per_invoice'')")
   apply (simp add: reqNum_throws reqNum_returns split del: if_split)
  apply (cases "conversion_throws (own body ''hourly_wage'')")
   apply (simp add: reqNum_throws reqNum_returns split del: if_split)
  apply (cases "conversion_throws (own body ''error_rate_manual'')")
   apply (simp add: reqNum_returns asNumber_throws split del: if_split)
  apply (cases "conversion_throws (own body ''error_cost'')")
   apply (simp add: reqNum_throws reqNum_returns asNumber_returns split del: if_split)
  apply (cases "conversion_throws (own body ''time_horizon_months'')")
   apply (simp add: reqNum_returns asNumber_throws asNumber_returns split del: if_split)
  apply (cases "conversion_throws (own body ''one_time_implementation_cost'')")
   apply (simp add: reqNum_returns asNumber_throws asNumber_returns split del: if_split)
  apply (simp only: reqNum_returns asNumber_returns on_return_Inr prod.case Let_def
      ScenarioInput.simps push_error simp_thms if_False append_Nil)
  apply (simp only: append_assoc append_Nil append_Cons)
  done

lemma get_prop_Inr: "body \<noteq> JUndefined \<Longrightarrow> body \<noteq> JNull \<Longrightarrow> \<exists>nm. get_prop body name = Inr nm"
  by (cases body) (simp_all add: get_prop_def split: option.splits)

lemma validateInputs_result:
  assumes "validateInputs body = Inr (inputs, errors)"
  shows "\<forall>f \<in> set numeric_fields. \<not> conversion_throws (own body f)"
    and "inputs =
       \<lparr> scenario_name = (case own body ''scenario_name'' of JStr s \<Rightarrow> s | _ \<Rightarrow> []),
         monthly_invoice_volume =
           (if isFinite (number_value (own body ''monthly_invoice_volume''))
            then number_value (own body ''monthly_invoice_volume'') else NaN),
         num_ap_staff =
           (if isFinite (number_value (own body ''num_ap_staff''))
            then number_value (own body ''num_ap_staff'') else NaN),
         avg_hours_per_invoice =
           (if isFinite (number_value (own body ''avg_hours_per_invoice''))
            then number_value (own body ''avg_hours_per_invoice'') else NaN),
         hourly_wage =
           (if isFinite (number_value (own body ''hourly_wage''))
            then number_value (own body ''hourly_wage'') else NaN),
         error_rate_manual =
           clamp (if isFinite (number_value (own body ''error_rate_manual''))
                  then number_value (own body ''error_rate_manual'') else NaN) (Fin 0) (Fin 100),
         error_cost =
           (if isFinite (number_value (own body ''error_cost''))
            then number_value (own body ''error_cost'') else NaN),
         time_horizon_months =
           (if isFinite (number_value (own body ''time_horizon_months''))
            then number_value (own body ''time_horizon_months'') else Fin 36),
         one_time_implementation_cost =
           (if isFinite (number_value (own body ''one_time_implementation_cost''))
            then number_value (own body ''one_time_implementation_cost'') else Fin 0) \<rparr>"
    and "errors =
        (if \<not> isFinite (number_value (own body ''monthly_invoice_volume''))
            \<or> js_lt (number_value (own body ''monthly_invoice_volume'')) (Fin 0)
         then [''monthly_invoice_volume must be a non-negative number''] else [])
        @ (if \<not> isFinite (number_value (own body ''num_ap_staff''))
            \<or> js_lt (number_value (own body ''num_ap_staff'')) (Fin 0)
         then [''num_ap_staff must be a non-negative number''] else [])
        @ (if \<not> isFinite (number_value (own body ''avg_hours_per_invoice''))
            \<or> js_lt (number_value (own body ''avg_hours_per_invoice'')) (Fin 0)
         then [''avg_hours_per_invoice must be a non-negative number''] else [])
        @ (if \<not> isFinite (number_value (own body ''hourly_wage''))
            \<or> js_lt (number_value (own body ''hourly_wage'')) (Fin 0)
         then [''hourly_wage must be a non-negative number''] else [])
        @ (if \<not> isFinite (number_value (own body ''error_cost''))
            \<or> js_lt (number_value (own body ''error_cost'')) (Fin 0)
         then [''error_cost must be a non-negative number''] else [])
        @ (if \<not> isFinite
                 (clamp (if isFinite (number_value (own body ''error_rate_manual''))
                         then number_value (own body ''error_rate_manual'') else NaN)
                    (Fin 0) (Fin 100))
         then [''error_rate_manual must be a number between 0 and 100''] else [])
        @ (if \<not> isFinite
                 (if isFinite (number_value (own body ''time_horizon_months''))
                  then number_value (own body ''time_horizon_months'') else Fin 36)
              \<or> js_le (if isFinite (number_value (own body ''time_horizon_months''))
                        then number_value (own body ''time_horizon_months'') else Fin 36) (Fin 0)
         then [''time_horizon_months must be > 0''] else [])"
proof -
  obtain nm where nm: "get_prop body ''scenario_name'' = Inr nm"
    using assms by (cases "get_prop body ''scenario_name''") (simp_all add: validateInputs_def)
  have own: "own body ''scenario_name'' = nm" by (simp add: own_def nm)
  note u = validateInputs_unfold [OF nm refl refl refl refl refl refl refl refl]
  have none: "\<not> (conversion_throws (own body ''monthly_invoice_volume'')
        \<or> conversion_throws (own body ''num_ap_staff'')
        \<or> conversion_throws (own body ''avg_hours_per_invoice'')
        \<or> conversion_throws (own body ''hourly_wage'')
        \<or> conversion_throws (own body ''error_rate_manual'')
        \<or> conversion_throws (own body ''error_cost'')
        \<or> conversion_throws (own body ''time_horizon_months'')
        \<or> conversion_throws (own body ''one_time_implementation_cost''))"
  proof
    assume "conversion_throws (own body ''monthly_invoice_volume'')
        \<or> conversion_throws (own body ''num_ap_staff'')
        \<or> conversion_throws (own body ''avg_hours_per_invoice'')
        \<or> conversion_throws (own body ''hourly_wage'')
        \<or> conversion_throws (own body ''error_rate_manual'')
        \<or> conversion_throws (own body ''error_cost'')
        \<or> conversion_throws (own body ''time_horizon_months'')
        \<or> conversion_throws (own body ''one_time_implementation_cost'')"
    then have "validateInputs body = Inl TypeError" by (simp only: u if_True)
    with assms show False by simp
  qed
  then show "\<forall>f \<in> set numeric_fields. \<not> conversion_throws (own body f)"
    by (simp add: numeric_fields_def)
  from none have r: "validateInputs body = Inr
       (\<lparr> scenario_name = (case nm of JStr s \<Rightarrow> s | _ \<Rightarrow> []),
         monthly_invoice_volume =
           (if isFinite (number_value (own body ''monthly_invoice_volume''))
            then number_value (own body ''monthly_invoice_volume'') else NaN),
         num_ap_staff =
           (if isFinite (number_value (own body ''num_ap_staff''))
            then number_value (own body ''num_ap_staff'') else NaN),
         avg_hours_per_invoice =
           (if isFinite (number_value (own body ''avg_hours_per_invoice''))
            then number_value (own body ''avg_hours_per_invoice'') else NaN),
         hourly_wage =
           (if isFinite (number_value (own body ''hourly_wage''))
            then number_value (own body ''hourly_wage'') else NaN),
         error_rate_manual =
           clamp (if isFinite (number_value (own body ''error_rate_manual''))
                  then number_value (own body ''error_rate_manual'') else NaN) (Fin 0) (Fin 100),
         error_cost =
           (if isFinite (number_value (own body ''error_cost''))
            then number_value (own body ''error_cost'') else NaN),
         time_horizon_months =
           (if isFinite (number_value (own body ''time_horizon_months''))
            then number_value (own body ''time_horizon_months'') else Fin 36),
         one_time_implementation_cost =
           (if isFinite (number_value (own body ''one_time_implementation_cost''))
            then number_value (own body ''one_time_implementation_cost'') else Fin 0) \<rparr>,
        (if \<not> isFinite (number_value (own body ''monthly_invoice_volume''))
            \<or> js_lt (number_value (own body ''monthly_invoice_volume'')) (Fin 0)
         then [''monthly_invoice_volume must be a non-negative number''] else [])
        @ (if \<not> isFinite (number_value (own body ''num_ap_staff''))
            \<or> js_lt (number_value (own body ''num_ap_staff'')) (Fin 0)
         then [''num_ap_staff must be a non-negative number''] else [])
        @ (if \<not> isFinite (number_value (own body ''avg_hours_per_invoice''))
            \<or> js_lt (number_value (own body ''avg_hours_per_invoice'')) (Fin 0)
         then [''avg_hours_per_invoice must be a non-negative number''] else [])
        @ (if \<not> isFinite (number_value (own body ''hourly_wage''))
            \<or> js_lt (number_value (own body ''hourly_wage'')) (Fin 0)
         then [''hourly_wage must be a non-negative number''] else [])
        @ (if \<not> isFinite (number_value (own body ''error_cost''))
            \<or> js_lt (number_value (own body ''error_cost'')) (Fin 0)
         then [''error_cost must be a non-negative number''] else [])
        @ (if \<not> isFinite
                 (clamp (if isFinite (number_value (own body ''error_rate_manual''))
                         then number_value (own body ''error_rate_manual'') else NaN)
                    (Fin 0) (Fin 100))
         then [''error_rate_manual must be a number between 0 and 100''] else [])
        @ (if \<not> isFinite
                 (if isFinite (number_value (own body ''time_horizon_months''))
                  then number_value (own body ''time_horizon_months'') else Fin 36)
              \<or> js_le (if isFinite (number_value (own body ''time_horizon_months''))
                        then number_value (own body ''time_horizon_months'') else Fin 36) (Fin 0)
         then [''time_horizon_months must be > 0''] else []))"
    by (simp only: u if_False)
  from r assms show "inputs =
       \<lparr> scenario_name = (case own body ''scenario_name'' of JStr s \<Rightarrow> s | _ \<Rightarrow> []),
         monthly_invoice_volume =
           (if isFinite (number_value (own body ''monthly_invoice_volume''))
            then number_value (own body ''monthly_invoice_volume'') else NaN),
         num_ap_staff =
           (if isFinite (number_value (own body ''num_ap_staff''))
            then number_value (own body ''num_ap_staff'') else NaN),
         avg_hours_per_invoice =
           (if isFinite (number_value (own body ''avg_hours_per_invoice''))
            then number_value (own body ''avg_hours_per_invoice'') else NaN),
         hourly_wage =
           (if isFinite (number_value (own body ''hourly_wage''))
            then number_value (own body ''hourly_wage'') else NaN),
         error_rate_manual =
           clamp (if isFinite (number_value (own body ''error_rate_manual''))
                  then number_value (own body ''error_rate_manual'') else NaN) (Fin 0) (Fin 100),
         error_cost =
           (if isFinite (number_value (own body ''error_cost''))
            then number_value (own body ''error_cost'') else NaN),
         time_horizon_months =
           (if isFinite (number_value (own body ''time_horizon_months''))
            then number_value (own body ''time_horizon_months'') else Fin 36),
         one_time_implementation_cost =
           (if isFinite (number_value (own body ''one_time_implementation_cost''))
            then number_value (own body ''one_time_implementation_cost'') else Fin 0) \<rparr>"
    unfolding own by (simp only: sum.inject prod.inject)
  from r assms show "errors =
        (if \<not> isFinite (number_value (own body ''monthly_invoice_volume''))
            \<or> js_lt (number_value (own body ''monthly_invoice_volume'')) (Fin 0)
         then [''monthly_invoice_volume must be a non-negative number''] else [])
        @ (if \<not> isFinite (number_value (own body ''num_ap_staff''))
            \<or> js_lt (number_value (own body ''num_ap_staff'')) (Fin 0)
         then [''num_ap_staff must be a non-negative number''] else [])
        @ (if \<not> isFinite (number_value (own body ''avg_hours_per_invoice''))
            \<or> js_lt (number_value (own body ''avg_hours_per_invoice'')) (Fin 0)
         then [''avg_hours_per_invoice must be a non-negative number''] else [])
        @ (if \<not> isFinite (number_value (own body ''hourly_wage''))
            \<or> js_lt (number_value (own body ''hourly_wage'')) (Fin 0)
         then [''hourly_wage must be a non-negative number''] else [])
        @ (if \<not> isFinite (number_value (own body ''error_cost''))
            \<or> js_lt (number_value (own body ''error_cost'')) (Fin 0)
         then [''error_cost must be a non-negative number''] else [])
        @ (if \<not> isFinite
                 (clamp (if isFinite (number_value (own body ''error_rate_manual''))
                         then number_value (own body ''error_rate_manual'') else NaN)
                    (Fin 0) (Fin 100))
         then [''error_rate_manual must be a number between 0 and 100''] else [])
        @ (if \<not> isFinite
                 (if isFinite (number_value (own body ''time_horizon_months''))
                  then number_value (own body ''time_horizon_months'') else Fin 36)
              \<or> js_le (if isFinite (number_value (own body ''time_horizon_months''))
                        then number_value (own body ''time_horizon_months'') else Fin 36) (Fin 0)
         then [''time_horizon_months must be > 0''] else [])"
    by (simp only: sum.inject prod.inject)
qed

lemma validateInputs_total:
  assumes "body \<noteq> JUndefined" and "body \<noteq> JNull"
    and "\<forall>f \<in> set numeric_fields. \<not> conversion_throws (own body f)"
  shows "\<exists>inputs errors. validateInputs body = Inr (inputs, errors)"
proof -
  obtain nm where nm: "get_prop body ''scenario_name'' = Inr nm"
    using get_prop_Inr [OF assms(1,2)] by blast
  show ?thesis
    using assms(3)
    by (simp add: validateInputs_unfold [OF nm refl refl refl refl refl refl refl refl]
        numeric_fields_def)
qed

lemma validateInputs_throws:
  assumes "f \<in> set numeric_fields" and "conversion_throws (own body f)"
  shows "validateInputs body = Inl TypeError"
proof (cases "validateInputs body")
  case (Inl e)
  then show ?thesis by (cases e) simp
next
  case (Inr p)
  obtain inputs errors where "p = (inputs, errors)" by (cases p)
  with Inr validateInputs_result(1) [of body inputs errors] assms show ?thesis by blast
qed

subsection \<open>Example bodies\<close>

lemma get_prop_JObj: "get_prop (JObj kvs) name = Inr (own (JObj kvs) name)"
  by (simp add: own_def get_prop_def split: option.splits)

lemmas validateInputs_object =
  validateInputs_unfold [OF get_prop_JObj refl refl refl refl refl refl refl refl]

lemmas validate_eval =
  validateInputs_object own_def get_prop_def canonical_body_def canonical_input_def
  unconvertible_def dbl_17_100 dbl_1_2 isFinite_def clamp_Fin clamp_NaN js_le_def

lemma validate_canonical_body: "validateInputs canonical_body = Inr (canonical_input, [])"
  by (simp add: validate_eval)

lemma validate_rate_150:
  "validateInputs (with_field canonical_body ''error_rate_manual'' (JNum (Fin 150))) =
     Inr (canonical_input\<lparr>error_rate_manual := Fin 100\<rparr>, [])"
  by (simp add: validate_eval)

lemma validate_rate_abc:
  "validateInputs (with_field canonical_body ''error_rate_manual'' (JStr ''abc'')) =
     Inr (canonical_input\<lparr>error_rate_manual := NaN\<rparr>,
          [''error_rate_manual must be a number between 0 and 100''])"
  by (simp add: validate_eval StringToNumber_abc)

lemma validate_wage_abc:
  "validateInputs (with_field canonical_body ''hourly_wage'' (JStr ''abc'')) =
     Inr (canonical_input\<lparr>hourly_wage := NaN\<rparr>,
          [''hourly_wage must be a non-negative number''])"
  by (simp add: validate_eval StringToNumber_abc)

lemma validate_staff_missing:
  "validateInputs (without_field canonical_body ''num_ap_staff'') =
     Inr (canonical_input\<lparr>num_ap_staff := NaN\<rparr>,
          [''num_ap_staff must be a non-negative number''])"
  by (simp add: validate_eval)

lemma validate_error_cost_negative:
  "validateInputs (with_field canonical_body ''error_cost'' (JNum (Fin (- 1)))) =
     Inr (canonical_input\<lparr>error_cost := Fin (- 1)\<rparr>,
          [''error_cost must be a non-negative number''])"
  by (simp add: validate_eval)

lemma validate_horizon_missing:
  "validateInputs (without_field canonical_body ''time_horizon_months'') =
     Inr (canonical_input, [])"
  by (simp add: validate_eval)

lemma validate_horizon_abc:
  "validateInputs (with_field canonical_body ''time_horizon_months'' (JStr ''abc'')) =
     Inr (canonical_input, [])"
  by (simp add: validate_eval StringToNumber_abc)

lemma validate_horizon_zero:
  "validateInputs (with_field canonical_body ''time_horizon_months'' (JNum (Fin 0))) =
     Inr (canonical_input\<lparr>time_horizon_months := Fin 0\<rparr>,
          [''time_horizon_months must be > 0''])"
  by (simp add: validate_eval)

lemma validate_cost_negative:
  "validateInputs
     (with_field canonical_body ''one_time_implementation_cost'' (JNum (Fin (- 50000)))) =
     Inr (canonical_input\<lparr>one_time_implementation_cost := Fin (- 50000)\<rparr>, [])"
  by (simp add: validate_eval)

lemma validate_rate_unconvertible:
  "validateInputs (with_field canonical_body ''error_rate_manual'' unconvertible) = Inl TypeError"
  by (simp add: validate_eval)

lemma validate_wage_unconvertible:
  "validateInputs (with_field canonical_body ''hourly_wage'' unconvertible) = Inl TypeError"
  by (simp add: validate_eval)

lemma validate_horizon_unconvertible:
  "validateInputs (with_field canonical_body ''time_horizon_months'' unconvertible) = Inl TypeError"
  by (simp add: validate_eval)


lemma ToNumber_unconvertible: "ToNumber unconvertible = Inl TypeError"
  by (simp add: ToNumber_def unconvertible_def)

lemma own_replaced:
  "own (with_field canonical_body ''error_rate_manual'' v) ''error_rate_manual'' = v"
  "own (with_field canonical_body ''hourly_wage'' v) ''hourly_wage'' = v"
  "own (with_field canonical_body ''error_cost'' v) ''error_cost'' = v"
  "own (with_field canonical_body ''time_horizon_months'' v) ''time_horizon_months'' = v"
  "own (with_field canonical_body ''monthly_invoice_volume'' v) ''monthly_invoice_volume'' = v"
  "own (with_field canonical_body ''one_time_implementation_cost'' v)
     ''one_time_implementation_cost'' = v"
  by (simp_all add: own_def get_prop_def canonical_body_def)

subsection \<open>The manual error rate\<close>

text \<open>
  Claim C4. \<open>validateInputs\<close> treats \<open>error_rate_manual\<close> asymmetrically: a value that
  parses to a finite number outside \<open>[0, 100]\<close> is clamped without an error, and for every
  value that does not parse to a finite number the error
  \<open>error_rate_manual must be a number between 0 and 100\<close> is added and the record is returned
  all the same. The code misses one kind of value. On the JSON object \<open>{"toString": 1}\<close>
  \<open>Number\<close> does not return: the own property hides the inherited method and is not
  callable, so the conversion throws a \<open>TypeError\<close>, which \<open>asNumber\<close> does not catch, and
  \<open>validateInputs\<close> throws with it. There is no record and no error list.
\<close>

theorem error_rate_manual_throws:
  "ToNumber (own (with_field canonical_body ''error_rate_manual'' unconvertible)
      ''error_rate_manual'') = Inl TypeError
   \<and> validateInputs (with_field canonical_body ''error_rate_manual'' unconvertible)
       = Inl TypeError"
  by (simp add: own_replaced ToNumber_unconvertible validate_rate_unconvertible)

theorem error_rate_manual_throws_witness:
  "validateInputs (with_field canonical_body ''error_rate_manual'' unconvertible) \<noteq>
     Inr (canonical_input\<lparr>error_rate_manual := NaN\<rparr>,
          [''error_rate_manual must be a number between 0 and 100''])"
  using error_rate_manual_throws by simp

text \<open>
  Wherever \<open>validateInputs\<close> returns, the code does what Claim C4 says. \<open>Number\<close> has
  then returned on \<open>error_rate_manual\<close>, and the field is treated asymmetrically. When the value
  is a finite number \<open>x\<close>, the field becomes \<open>x\<close> clamped into \<open>[0, 100]\<close> (so \<open>150\<close> becomes
  \<open>100\<close>) and no error is added for it. When the value is \<open>NaN\<close> or an infinity (as for
  \<open>"abc"\<close>), the error \<open>error_rate_manual must be a number between 0 and 100\<close> is added and
  the record is returned with the field \<open>NaN\<close>.
\<close>

theorem error_rate_manual_asymmetry:
  assumes "validateInputs body = Inr (inputs, errors)"
  shows "(\<exists>n. ToNumber (own body ''error_rate_manual'') = Inr n)
       \<and> (\<forall>x. ToNumber (own body ''error_rate_manual'') = Inr (Fin x) \<longrightarrow>
            error_rate_manual inputs = Fin (min (max x 0) 100)
          \<and> ''error_rate_manual must be a number between 0 and 100'' \<notin> set errors)
       \<and> (\<forall>n. ToNumber (own body ''error_rate_manual'') = Inr n \<and> \<not> isFinite n \<longrightarrow>
            error_rate_manual inputs = NaN
          \<and> ''error_rate_manual must be a number between 0 and 100'' \<in> set errors)"
proof -
  note r = validateInputs_result [OF assms]
  have nt: "\<not> conversion_throws (own body ''error_rate_manual'')"
    using r(1) by (simp add: numeric_fields_def)
  then have 1: "\<exists>n. ToNumber (own body ''error_rate_manual'') = Inr n"
    by (simp add: ToNumber_Inr)
  have 2: "error_rate_manual inputs = Fin (min (max x 0) 100)
      \<and> ''error_rate_manual must be a number between 0 and 100'' \<notin> set errors"
    if "ToNumber (own body ''error_rate_manual'') = Inr (Fin x)" for x
  proof -
    from that have x: "number_value (own body ''error_rate_manual'') = Fin x"
      by (simp add: ToNumber_Inr)
    have "error_rate_manual inputs = Fin (min (max x 0) 100)"
      by (simp add: r(2) x clamp_Fin isFinite_def)
    moreover have "''error_rate_manual must be a number between 0 and 100'' \<notin> set errors"
      by (simp add: r(3) x clamp_Fin isFinite_def)
    ultimately show ?thesis by simp
  qed
  have 3: "error_rate_manual inputs = NaN
      \<and> ''error_rate_manual must be a number between 0 and 100'' \<in> set errors"
    if "ToNumber (own body ''error_rate_manual'') = Inr n \<and> \<not> isFinite n" for n
  proof -
    from that have n: "\<not> isFinite (number_value (own body ''error_rate_manual''))"
      by (auto simp: ToNumber_Inr)
    have "error_rate_manual inputs = NaN"
      by (simp add: r(2) n clamp_NaN)
    moreover have "''error_rate_manual must be a number between 0 and 100'' \<in> set errors"
      using n by (simp add: r(3) clamp_NaN isFinite_def)
    ultimately show ?thesis by simp
  qed
  from 1 2 3 show ?thesis by blast
qed

theorem error_rate_manual_asymmetry_witness:
  "(\<exists>inputs errors.
      validateInputs (with_field canonical_body ''error_rate_manual'' (JNum (Fin 150))) =
        Inr (inputs, errors)
      \<and> error_rate_manual inputs = Fin 100
      \<and> ''error_rate_manual must be a number between 0 and 100'' \<notin> set errors)
   \<and> (\<exists>inputs errors.
      validateInputs (with_field canonical_body ''error_rate_manual'' (JStr ''abc'')) =
        Inr (inputs, errors)
      \<and> error_rate_manual inputs = NaN
      \<and> ''error_rate_manual must be a number between 0 and 100'' \<in> set errors)"
proof -
  have a: "ToNumber (own (with_field canonical_body ''error_rate_manual'' (JNum (Fin 150)))
             ''error_rate_manual'') = Inr (Fin 150)"
    by (simp add: own_replaced ToNumber_def)
  have b: "ToNumber (own (with_field canonical_body ''error_rate_manual'' (JStr ''abc''))
             ''error_rate_manual'') = Inr NaN \<and> \<not> isFinite NaN"
    by (simp add: own_replaced ToNumber_def StringToNumber_abc isFinite_def)
  from error_rate_manual_asymmetry [OF validate_rate_150] a
  have 1: "error_rate_manual (canonical_input\<lparr>error_rate_manual := Fin 100\<rparr>) = Fin 100
      \<and> ''error_rate_manual must be a number between 0 and 100'' \<notin> set []"
    by simp
  from error_rate_manual_asymmetry [OF validate_rate_abc] b
  have 2: "error_rate_manual (canonical_input\<lparr>error_rate_manual := NaN\<rparr>) = NaN
      \<and> ''error_rate_manual must be a number between 0 and 100''
          \<in> set [''error_rate_manual must be a number between 0 and 100'']"
    by simp
  show ?thesis
    using 1 2 by (simp add: validate_rate_150 validate_rate_abc)
qed

subsection \<open>The required fields\<close>

text \<open>
  Claim C5. For each of the five required fields, \<open>validateInputs\<close> adds the message
  \<open><field> must be a non-negative number\<close> if and only if the field is missing, fails to
  parse to a finite number, or parses to a negative number. The code misses one kind of
  value. With \<open>hourly_wage\<close> the JSON object \<open>{"toString": 1}\<close>, \<open>Number\<close> throws a
  \<open>TypeError\<close>, which \<open>asNumber\<close> does not catch, and \<open>validateInputs\<close> throws with it: no
  message is added and no record is returned.
\<close>

theorem required_field_throws:
  "''hourly_wage'' \<in> set required_fields
   \<and> ToNumber (own (with_field canonical_body ''hourly_wage'' unconvertible) ''hourly_wage'')
       = Inl TypeError
   \<and> validateInputs (with_field canonical_body ''hourly_wage'' unconvertible) = Inl TypeError"
  by (simp add: own_replaced ToNumber_unconvertible validate_wage_unconvertible
      required_fields_def)

theorem required_field_throws_witness:
  "validateInputs (with_field canonical_body ''hourly_wage'' unconvertible) \<noteq>
     Inr (canonical_input\<lparr>hourly_wage := NaN\<rparr>,
          [''hourly_wage must be a non-negative number''])"
  using required_field_throws by simp

text \<open>
  Wherever \<open>validateInputs\<close> returns, the code does what Claim C5 says. For each of the
  five required fields, \<open>Number\<close> has then returned on the field, and the message
  \<open><field> must be a non-negative number\<close> is in the error list if and only if the field is
  missing, parses to \<open>NaN\<close> or an infinity, or parses to a negative number; a value that
  parses to \<open>NaN\<close> or an infinity leaves \<open>NaN\<close> in the record, never zero.
\<close>

theorem required_field_errors:
  assumes "validateInputs body = Inr (inputs, errors)" and "f \<in> set required_fields"
  shows "(\<exists>n. ToNumber (own body f) = Inr n)
       \<and> ((f @ '' must be a non-negative number'' \<in> set errors) =
            (\<exists>n. ToNumber (own body f) = Inr n \<and> (\<not> isFinite n \<or> js_lt n (Fin 0))))
       \<and> (own body f = JUndefined \<longrightarrow> f @ '' must be a non-negative number'' \<in> set errors)
       \<and> (\<forall>n. ToNumber (own body ''monthly_invoice_volume'') = Inr n \<and> \<not> isFinite n \<longrightarrow>
            monthly_invoice_volume inputs = NaN)
       \<and> (\<forall>n. ToNumber (own body ''num_ap_staff'') = Inr n \<and> \<not> isFinite n \<longrightarrow>
            num_ap_staff inputs = NaN)
       \<and> (\<forall>n. ToNumber (own body ''avg_hours_per_invoice'') = Inr n \<and> \<not> isFinite n \<longrightarrow>
            avg_hours_per_invoice inputs = NaN)
       \<and> (\<forall>n. ToNumber (own body ''hourly_wage'') = Inr n \<and> \<not> isFinite n \<longrightarrow>
            hourly_wage inputs = NaN)
       \<and> (\<forall>n. ToNumber (own body ''error_cost'') = Inr n \<and> \<not> isFinite n \<longrightarrow>
            error_cost inputs = NaN)"
proof -
  note r = validateInputs_result [OF assms(1)]
  have nt: "\<not> conversion_throws (own body f)"
    using r(1) assms(2) by (auto simp: numeric_fields_def required_fields_def)
  then have returns: "ToNumber (own body f) = Inr (number_value (own body f))"
    by (rule ToNumber_returns)
  have flagged: "(f @ '' must be a non-negative number'' \<in> set errors) =
      (\<not> isFinite (number_value (own body f)) \<or> js_lt (number_value (own body f)) (Fin 0))"
    using assms(2) unfolding required_fields_def
    by (auto simp: r(3) split: if_splits)
  have 1: "\<exists>n. ToNumber (own body f) = Inr n"
    using returns by blast
  have 2: "(f @ '' must be a non-negative number'' \<in> set errors) =
      (\<exists>n. ToNumber (own body f) = Inr n \<and> (\<not> isFinite n \<or> js_lt n (Fin 0)))"
    unfolding flagged returns by simp
  have 3: "own body f = JUndefined \<longrightarrow> f @ '' must be a non-negative number'' \<in> set errors"
    unfolding flagged by (simp add: isFinite_def)
  have 4: "\<forall>n. ToNumber (own body ''monthly_invoice_volume'') = Inr n \<and> \<not> isFinite n \<longrightarrow>
      monthly_invoice_volume inputs = NaN"
    by (auto simp: r(2) ToNumber_Inr)
  have 5: "\<forall>n. ToNumber (own body ''num_ap_staff'') = Inr n \<and> \<not> isFinite n \<longrightarrow>
      num_ap_staff inputs = NaN"
    by (auto simp: r(2) ToNumber_Inr)
  have 6: "\<forall>n. ToNumber (own body ''avg_hours_per_invoice'') = Inr n \<and> \<not> isFinite n \<longrightarrow>
      avg_hours_per_invoice inputs = NaN"
    by (auto simp: r(2) ToNumber_Inr)
  have 7: "\<forall>n. ToNumber (own body ''hourly_wage'') = Inr n \<and> \<not> isFinite n \<longrightarrow>
      hourly_wage inputs = NaN"
    by (auto simp: r(2) ToNumber_Inr)
  have 8: "\<forall>n. ToNumber (own body ''error_cost'') = Inr n \<and> \<not> isFinite n \<longrightarrow>
      error_cost inputs = NaN"
    by (auto simp: r(2) ToNumber_Inr)
  from 1 2 3 4 5 6 7 8 show ?thesis by (intro conjI)
qed

theorem required_field_errors_witness:
  "(''hourly_wage'' \<in> set required_fields
      \<and> (\<exists>inputs errors.
            validateInputs (with_field canonical_body ''hourly_wage'' (JStr ''abc'')) =
              Inr (inputs, errors)
            \<and> ''hourly_wage must be a non-negative number'' \<in> set errors
            \<and> hourly_wage inputs = NaN))
   \<and> (''num_ap_staff'' \<in> set required_fields
      \<and> (\<exists>inputs errors.
            validateInputs (without_field canonical_body ''num_ap_staff'') = Inr (inputs, errors)
            \<and> ''num_ap_staff must be a non-negative number'' \<in> set errors))
   \<and> (''error_cost'' \<in> set required_fields
      \<and> (\<exists>inputs errors.
            validateInputs (with_field canonical_body ''error_cost'' (JNum (Fin (- 1)))) =
              Inr (inputs, errors)
            \<and> ''error_cost must be a non-negative number'' \<in> set errors))
   \<and> (''monthly_invoice_volume'' \<in> set required_fields
      \<and> (\<exists>inputs errors.
            validateInputs canonical_body = Inr (inputs, errors)
            \<and> ''monthly_invoice_volume must be a non-negative number'' \<notin> set errors))"
proof -
  have r: "''hourly_wage'' \<in> set required_fields" "''num_ap_staff'' \<in> set required_fields"
    "''error_cost'' \<in> set required_fields" "''monthly_invoice_volume'' \<in> set required_fields"
    by (simp_all add: required_fields_def)
  have a: "ToNumber (own (with_field canonical_body ''hourly_wage'' (JStr ''abc''))
             ''hourly_wage'') = Inr NaN \<and> \<not> isFinite NaN"
    by (simp add: own_replaced ToNumber_def StringToNumber_abc isFinite_def)
  have b: "own (without_field canonical_body ''num_ap_staff'') ''num_ap_staff'' = JUndefined"
    by (simp add: own_def get_prop_def canonical_body_def)
  have c: "ToNumber (own (with_field canonical_body ''error_cost'' (JNum (Fin (- 1))))
             ''error_cost'') = Inr (Fin (- 1)) \<and> js_lt (Fin (- 1)) (Fin 0)"
    by (simp add: own_replaced ToNumber_def)
  from required_field_errors [OF validate_wage_abc r(1)] a
  have 1: "''hourly_wage must be a non-negative number''
        \<in> set [''hourly_wage must be a non-negative number'']
      \<and> hourly_wage (canonical_input\<lparr>hourly_wage := NaN\<rparr>) = NaN"
    by simp
  from required_field_errors [OF validate_staff_missing r(2)] b
  have 2: "''num_ap_staff must be a non-negative number''
        \<in> set [''num_ap_staff must be a non-negative number'']"
    by simp
  from required_field_errors [OF validate_error_cost_negative r(3)] c
  have 3: "''error_cost must be a non-negative number''
        \<in> set [''error_cost must be a non-negative number'']"
    by simp
  from required_field_errors [OF validate_canonical_body r(4)]
  have 4: "''monthly_invoice_volume must be a non-negative number'' \<notin> set []"
    by simp
  show ?thesis
    using r 1 2 3 4
    by (simp add: validate_wage_abc validate_staff_missing validate_error_cost_negative
        validate_canonical_body)
qed

subsection \<open>The time horizon\<close>

text \<open>
  Claim C6. A \<open>time_horizon_months\<close> that is missing or does not parse to a finite number
  is resolved to \<open>36\<close> without an error, and one that parses to a finite number \<open><= 0\<close> gets
  the error \<open>time_horizon_months must be > 0\<close>. The code misses one kind of value. With the
  JSON object \<open>{"toString": 1}\<close> in that field, \<open>Number\<close> throws a \<open>TypeError\<close>, which
  \<open>asNumber\<close> does not catch, and \<open>validateInputs\<close> throws with it: nothing is resolved and
  no record is returned.
\<close>

theorem time_horizon_throws:
  "ToNumber (own (with_field canonical_body ''time_horizon_months'' unconvertible)
      ''time_horizon_months'') = Inl TypeError
   \<and> validateInputs (with_field canonical_body ''time_horizon_months'' unconvertible)
       = Inl TypeError"
  by (simp add: own_replaced ToNumber_unconvertible validate_horizon_unconvertible)

theorem time_horizon_throws_witness:
  "validateInputs (with_field canonical_body ''time_horizon_months'' unconvertible) \<noteq>
     Inr (canonical_input, [])"
  using time_horizon_throws by simp

text \<open>
  Wherever \<open>validateInputs\<close> returns, the code does what Claim C6 says. \<open>Number\<close> has
  then returned on \<open>time_horizon_months\<close>. If the field is missing or parses to \<open>NaN\<close> or an
  infinity, it is resolved to \<open>36\<close> and \<open>time_horizon_months must be > 0\<close> is not added; if
  it parses to a finite number \<open><= 0\<close>, the field keeps that number and the error is added,
  exactly once.
\<close>

theorem time_horizon_default:
  assumes "validateInputs body = Inr (inputs, errors)"
  shows "(\<exists>n. ToNumber (own body ''time_horizon_months'') = Inr n)
       \<and> (own body ''time_horizon_months'' = JUndefined
            \<or> (\<exists>n. ToNumber (own body ''time_horizon_months'') = Inr n \<and> \<not> isFinite n) \<longrightarrow>
            time_horizon_months inputs = Fin 36
          \<and> ''time_horizon_months must be > 0'' \<notin> set errors)
       \<and> (\<forall>n. ToNumber (own body ''time_horizon_months'') = Inr n
                \<and> isFinite n \<and> js_le n (Fin 0) \<longrightarrow>
            time_horizon_months inputs = n
          \<and> count_list errors ''time_horizon_months must be > 0'' = 1)"
proof -
  note r = validateInputs_result [OF assms]
  have nt: "\<not> conversion_throws (own body ''time_horizon_months'')"
    using r(1) by (simp add: numeric_fields_def)
  then have 1: "\<exists>n. ToNumber (own body ''time_horizon_months'') = Inr n"
    by (simp add: ToNumber_Inr)
  have 2: "time_horizon_months inputs = Fin 36
      \<and> ''time_horizon_months must be > 0'' \<notin> set errors"
    if "own body ''time_horizon_months'' = JUndefined
        \<or> (\<exists>n. ToNumber (own body ''time_horizon_months'') = Inr n \<and> \<not> isFinite n)"
  proof -
    from that have n: "\<not> isFinite (number_value (own body ''time_horizon_months''))"
      by (auto simp: ToNumber_Inr isFinite_def)
    have "time_horizon_months inputs = Fin 36"
      by (simp add: r(2) n)
    moreover have "''time_horizon_months must be > 0'' \<notin> set errors"
      using n by (simp add: r(3) isFinite_def js_le_def)
    ultimately show ?thesis by simp
  qed
  have 3: "time_horizon_months inputs = n
      \<and> count_list errors ''time_horizon_months must be > 0'' = 1"
    if "ToNumber (own body ''time_horizon_months'') = Inr n \<and> isFinite n \<and> js_le n (Fin 0)"
    for n
  proof -
    from that have n: "number_value (own body ''time_horizon_months'') = n"
      and f: "isFinite n" and le: "js_le n (Fin 0)"
      by (auto simp: ToNumber_Inr)
    have "time_horizon_months inputs = n"
      by (simp add: r(2) n f)
    moreover have "count_list errors ''time_horizon_months must be > 0'' = 1"
      using f le by (simp add: r(3) n)
    ultimately show ?thesis by simp
  qed
  from 1 2 3 show ?thesis by blast
qed

theorem time_horizon_default_witness:
  "(\<exists>inputs errors.
      validateInputs (without_field canonical_body ''time_horizon_months'') = Inr (inputs, errors)
      \<and> own (without_field canonical_body ''time_horizon_months'') ''time_horizon_months''
          = JUndefined
      \<and> time_horizon_months inputs = Fin 36
      \<and> ''time_horizon_months must be > 0'' \<notin> set errors)
   \<and> (\<exists>inputs errors.
      validateInputs (with_field canonical_body ''time_horizon_months'' (JStr ''abc'')) =
        Inr (inputs, errors)
      \<and> time_horizon_months inputs = Fin 36
      \<and> ''time_horizon_months must be > 0'' \<notin> set errors)
   \<and> (\<exists>inputs errors.
      validateInputs (with_field canonical_body ''time_horizon_months'' (JNum (Fin 0))) =
        Inr (inputs, errors)
      \<and> time_horizon_months inputs = Fin 0
      \<and> count_list errors ''time_horizon_months must be > 0'' = 1)"
proof -
  have a: "own (without_field canonical_body ''time_horizon_months'') ''time_horizon_months''
      = JUndefined"
    by (simp add: own_def get_prop_def canonical_body_def)
  have b: "\<exists>n. ToNumber (own (with_field canonical_body ''time_horizon_months''
      (JStr ''abc'')) ''time_horizon_months'') = Inr n \<and> \<not> isFinite n"
    by (simp add: own_replaced ToNumber_def StringToNumber_abc isFinite_def)
  have c: "ToNumber (own (with_field canonical_body ''time_horizon_months'' (JNum (Fin 0)))
      ''time_horizon_months'') = Inr (Fin 0) \<and> isFinite (Fin 0) \<and> js_le (Fin 0) (Fin 0)"
    by (simp add: own_replaced ToNumber_def isFinite_def js_le_def)
  from time_horizon_default [OF validate_horizon_missing] a
  have 1: "time_horizon_months canonical_input = Fin 36
      \<and> ''time_horizon_months must be > 0'' \<notin> set []"
    by blast
  from time_horizon_default [OF validate_horizon_abc] b
  have 2: "time_horizon_months canonical_input = Fin 36
      \<and> ''time_horizon_months must be > 0'' \<notin> set []"
    by blast
  from time_horizon_default [OF validate_horizon_zero] c
  have 3: "time_horizon_months (canonical_input\<lparr>time_horizon_months := Fin 0\<rparr>) = Fin 0
      \<and> count_list [''time_horizon_months must be > 0''] ''time_horizon_months must be > 0'' = 1"
    by blast
  show ?thesis
    using a 1 2 3
    by (simp add: validate_horizon_missing validate_horizon_abc validate_horizon_zero)
qed

subsection \<open>A negative implementation cost\<close>

text \<open>
  Claim C10. When \<open>one_time_implementation_cost\<close> parses to a finite negative number,
  \<open>validateInputs\<close> keeps it and adds no error naming that field, and \<open>simulate\<close> then takes
  the zero-cost branch of the ROI rule: \<open>roi_percentage\<close> is \<open>999\<close> when the cumulative savings
  are \<open>> 0\<close> and \<open>0\<close> otherwise.
\<close>

theorem negative_cost_accepted:
  assumes "validateInputs body = Inr (inputs, errors)"
    and "ToNumber (own body ''one_time_implementation_cost'') = Inr (Fin c)" and "c < 0"
  shows "one_time_implementation_cost inputs = Fin c
       \<and> (\<forall>e \<in> set errors. \<not> prefix ''one_time_implementation_cost'' e)
       \<and> roi_percentage (simulate inputs) =
           (if js_gt (cumulative_savings_of inputs) (Fin 0) then Fin 999 else Fin 0)"
proof -
  note r = validateInputs_result [OF assms(1)]
  have a: "number_value (own body ''one_time_implementation_cost'') = Fin c"
    using assms(2) by (simp add: ToNumber_Inr)
  have cost: "one_time_implementation_cost inputs = Fin c"
    by (simp add: r(2) a isFinite_def)
  have none: "\<forall>e \<in> set errors. \<not> prefix ''one_time_implementation_cost'' e"
    by (auto simp: r(3) split: if_splits)
  have "\<not> js_gt (one_time_implementation_cost inputs) (Fin 0)"
    using assms(3) by (simp add: cost js_gt_def)
  then have "roi_percentage (simulate inputs) =
      (if js_gt (cumulative_savings_of inputs) (Fin 0) then Fin 999 else Fin 0)"
    by (simp add: simulate_def roi_percentage_of_def toFixed2_Number_999 toFixed2_Number_zero)
  with cost none show ?thesis by simp
qed

theorem negative_cost_accepted_witness:
  "\<exists>inputs errors.
      validateInputs
        (with_field canonical_body ''one_time_implementation_cost'' (JNum (Fin (- 50000)))) =
        Inr (inputs, errors)
      \<and> (- 50000 :: rat) < 0
      \<and> one_time_implementation_cost inputs = Fin (- 50000)
      \<and> errors = []
      \<and> roi_percentage (simulate inputs) = Fin 999"
proof -
  have a: "ToNumber (own (with_field canonical_body ''one_time_implementation_cost''
      (JNum (Fin (- 50000)))) ''one_time_implementation_cost'') = Inr (Fin (- 50000))"
    by (simp add: own_replaced ToNumber_def)
  have b: "(- 50000 :: rat) < 0" by simp
  show ?thesis
    using negative_cost_accepted [OF validate_cost_negative a b]
    by (simp add: validate_cost_negative canonical_cumulative_savings js_gt_def)
qed

section \<open>The routes\<close>

lemma truthy_not_nullish: "truthy v \<Longrightarrow> v \<noteq> JUndefined \<and> v \<noteq> JNull"
  by (auto simp: truthy_def)

lemma validate_two_errors:
  "validateInputs
     (with_field (with_field canonical_body ''hourly_wage'' (JStr ''abc''))
        ''time_horizon_months'' (JNum (Fin 0))) =
     Inr (canonical_input\<lparr>hourly_wage := NaN, time_horizon_months := Fin 0\<rparr>,
          [''hourly_wage must be a non-negative number'', ''time_horizon_months must be > 0''])"
  by (simp add: validate_eval StringToNumber_abc)



text \<open>
  On every other body the code does what Claim C7 says. When \<open>Number\<close> converts every
  numeric field without throwing (none is an object with an own property \<open>toString\<close>, or an
  array holding one), \<open>POST /simulate\<close> is all-or-nothing: validation returns a record and an error list; if
  the list is not empty the response is a 400 carrying the whole list and no result, and if
  it is empty the response is a 200 carrying \<open>simulate\<close> applied to the normalized record.
\<close>

theorem post_simulate_all_or_nothing:
  assumes "\<forall>f \<in> set numeric_fields.
      \<not> conversion_throws (own (if truthy req_body then req_body else JObj []) f)"
  shows "\<exists>inputs errors.
      validateInputs (if truthy req_body then req_body else JObj []) = Inr (inputs, errors)
      \<and> (errors \<noteq> [] \<longrightarrow> post_simulate req_body = Response 400 (ErrorsReply errors))
      \<and> (errors = [] \<longrightarrow> post_simulate req_body = Response 200 (ResultReply (simulate inputs)))"
proof -
  let ?b = "if truthy req_body then req_body else JObj []"
  have "?b \<noteq> JUndefined" and "?b \<noteq> JNull"
    using truthy_not_nullish [of req_body] by auto
  from validateInputs_total [OF this assms]
  obtain inputs errors where v: "validateInputs ?b = Inr (inputs, errors)"
    by blast
  show ?thesis
    by (rule exI [of _ inputs], rule exI [of _ errors]) (simp add: post_simulate_def v)
qed

theorem post_simulate_all_or_nothing_witness:
  "post_simulate
     (with_field (with_field canonical_body ''hourly_wage'' (JStr ''abc''))
        ''time_horizon_months'' (JNum (Fin 0))) =
     Response 400 (ErrorsReply [''hourly_wage must be a non-negative number'',
                                ''time_horizon_months must be > 0''])
   \<and> post_simulate canonical_body = Response 200 (ResultReply (simulate canonical_input))"
proof -
  let ?bad = "with_field (with_field canonical_body ''hourly_wage'' (JStr ''abc''))
        ''time_horizon_months'' (JNum (Fin 0))"
  have t: "truthy ?bad" "truthy canonical_body"
    by (simp_all add: truthy_def canonical_body_def)
  have n1: "\<forall>f \<in> set numeric_fields.
      \<not> conversion_throws (own (if truthy ?bad then ?bad else JObj []) f)"
    using validateInputs_result(1) [OF validate_two_errors] by (simp only: t if_True)
  have n2: "\<forall>f \<in> set numeric_fields.
      \<not> conversion_throws (own (if truthy canonical_body then canonical_body else JObj []) f)"
    using validateInputs_result(1) [OF validate_canonical_body] by (simp only: t if_True)
  show ?thesis
    using post_simulate_all_or_nothing [OF n1] post_simulate_all_or_nothing [OF n2]
    by (auto simp: t validate_two_errors validate_canonical_body)
qed

section \<open>Both servers\<close>

text \<open>
  Claim C9. The validation and calculation core does not depend on the storage backend:
  \<open>validateInputs\<close> and \<open>simulate\<close> of the PostgreSQL server are the same functions as those of
  the MongoDB server, on every raw input and on every record.
\<close>

theorem servers_agree:
  "validateInputs_pg = validateInputs \<and> simulate_pg = simulate"
proof
  have a: "asNumber_pg = asNumber"
    by (intro ext) (simp add: asNumber_pg_def asNumber_def)
  have c: "clamp_pg = clamp"
    by (intro ext) (simp add: clamp_pg_def clamp_def)
  have r: "reqNum_pg = reqNum"
    by (intro ext) (simp add: reqNum_pg_def reqNum_def a)
  show "validateInputs_pg = validateInputs"
    unfolding validateInputs_pg_def [abs_def] validateInputs_def [abs_def] a c r
    by (rule refl)
  show "simulate_pg = simulate"
    by (intro ext)
      (simp add: simulate_pg_def simulate_def Let_def roi_percentage_of_def
        payback_months_of_def net_savings_of_def cumulative_savings_of_def
        monthly_savings_of_def error_savings_def auto_cost_def labor_cost_manual_def
        automated_cost_per_invoice_pg_def error_rate_auto_pg_def min_roi_boost_factor_pg_def
        automated_cost_per_invoice_def error_rate_auto_def min_roi_boost_factor_def)
qed

section \<open>Saved scenarios\<close>

lemma simulate_scenario_name: "simulate (inputs\<lparr>scenario_name := n\<rparr>) = simulate inputs"
  by (simp add: simulate_def roi_percentage_of_def payback_months_of_def net_savings_of_def
      cumulative_savings_of_def monthly_savings_of_def error_savings_def auto_cost_def
      labor_cost_manual_def)

lemma find_fresh: "\<forall>x \<in> set xs. \<not> P x \<Longrightarrow> P d \<Longrightarrow> find P (xs @ [d]) = Some d"
  by (induction xs) simp_all

lemma Scenario_create_Some:
  assumes "Scenario_create env store name inputs results = Some (doc, store')"
  shows "store' = store @ [doc]" and "doc_inputs doc = inputs" and "doc_results doc = results"
    and "doc_scenario_name doc = name" and "findById store' (doc_id doc) = Some doc"
proof -
  have ok: "\<not> (\<not> db_up env \<or> new_id env \<in> set (map doc_id store))"
    using assms
    by (cases "\<not> db_up env \<or> new_id env \<in> set (map doc_id store)")
      (simp_all add: Scenario_create_def)
  with assms have doc: "doc = \<lparr> doc_id = new_id env, doc_scenario_name = name,
      doc_inputs = inputs, doc_results = results, created_at = now env,
      updated_at = now env \<rparr>" and st: "store' = store @ [doc]"
    by (auto simp: Scenario_create_def Let_def)
  show "store' = store @ [doc]" by (rule st)
  show "doc_inputs doc = inputs" "doc_results doc = results" "doc_scenario_name doc = name"
    by (simp_all add: doc)
  have id: "doc_id doc = new_id env" by (simp add: doc)
  have "\<forall>x \<in> set store. \<not> doc_id x = doc_id doc"
    using ok unfolding id by force
  then show "findById store' (doc_id doc) = Some doc"
    unfolding findById_def st by (rule find_fresh) simp
qed


lemma post_scenarios_cases:
  assumes "post_scenarios env store req_body = (r, store')"
  shows "(store' = store \<and> (\<forall>i nm. r \<noteq> Response 200 (SavedReply i nm)))
       \<or> (\<exists>inputs name doc.
            validateInputs (scenario_body req_body) = Inr (inputs, [])
          \<and> Scenario_create env store name (inputs\<lparr>scenario_name := name\<rparr>) (simulate inputs)
              = Some (doc, store')
          \<and> r = Response 200 (SavedReply (doc_id doc) (doc_scenario_name doc)))"
proof (cases "validateInputs (scenario_body req_body)")
  case (Inl e)
  with assms show ?thesis by (auto simp: post_scenarios_def)
next
  case (Inr p)
  obtain inputs errors where p: "p = (inputs, errors)" by (cases p)
  note v = Inr [unfolded p]
  show ?thesis
  proof (cases "errors = []")
    case False
    with assms show ?thesis by (auto simp: post_scenarios_def v)
  next
    case True
    define named where "named =
      (if trim (scenario_name inputs) \<noteq> [] then Some (trim (scenario_name inputs))
       else case countDocuments env store of None \<Rightarrow> None
            | Some count \<Rightarrow> Some (''Scenario '' @ string_of_nat (count + 1)))"
    have ps: "post_scenarios env store req_body =
      (case named of
         None \<Rightarrow> (Response 500 (ErrorReply ''failed to save scenario''), store)
       | Some scenarioName \<Rightarrow>
           (case Scenario_create env store scenarioName
                   (inputs\<lparr>scenario_name := scenarioName\<rparr>) (simulate inputs) of
              None \<Rightarrow> (Response 500 (ErrorReply ''failed to save scenario''), store)
            | Some (doc, store') \<Rightarrow>
                (Response 200 (SavedReply (doc_id doc) (doc_scenario_name doc)), store')))"
      unfolding post_scenarios_def v True named_def Let_def by simp
    show ?thesis
    proof (cases named)
      case None
      with assms ps show ?thesis by auto
    next
      case (Some name)
      show ?thesis
      proof (cases "Scenario_create env store name (inputs\<lparr>scenario_name := name\<rparr>)
                      (simulate inputs)")
        case None
        with assms ps Some show ?thesis by auto
      next
        case c: (Some q)
        obtain doc st where q: "q = (doc, st)" by (cases q)
        from assms ps Some c q have "store' = st"
          and "r = Response 200 (SavedReply (doc_id doc) (doc_scenario_name doc))"
          by simp_all
        with c q v True show ?thesis by blast
      qed
    qed
  qed
qed


lemma post_scenarios_store:
  assumes "post_scenarios env store req_body = (r, store')"
  shows "store' = store
       \<or> (\<exists>d. store' = store @ [d] \<and> doc_results d = simulate (doc_inputs d))"
proof -
  from post_scenarios_cases [OF assms] show ?thesis
  proof
    assume "store' = store \<and> (\<forall>i nm. r \<noteq> Response 200 (SavedReply i nm))"
    then show ?thesis by simp
  next
    assume "\<exists>inputs name doc.
            validateInputs (scenario_body req_body) = Inr (inputs, [])
          \<and> Scenario_create env store name (inputs\<lparr>scenario_name := name\<rparr>) (simulate inputs)
              = Some (doc, store')
          \<and> r = Response 200 (SavedReply (doc_id doc) (doc_scenario_name doc))"
    then obtain inputs name doc where
      c: "Scenario_create env store name (inputs\<lparr>scenario_name := name\<rparr>) (simulate inputs)
            = Some (doc, store')"
      by blast
    note f = Scenario_create_Some [OF c]
    have "doc_results doc = simulate (doc_inputs doc)"
      by (simp add: f(2) f(3) simulate_scenario_name)
    with f(1) show ?thesis by blast
  qed
qed

lemma post_scenarios_saved:
  assumes "post_scenarios env store req_body = (Response 200 (SavedReply i nm), store')"
  shows "\<exists>inputs d. validateInputs (scenario_body req_body) = Inr (inputs, [])
           \<and> findById store' i = Some d
           \<and> doc_inputs d = inputs\<lparr>scenario_name := nm\<rparr>
           \<and> doc_results d = simulate inputs"
proof -
  from post_scenarios_cases [OF assms] show ?thesis
  proof
    assume "store' = store
      \<and> (\<forall>j n. Response 200 (SavedReply i nm) \<noteq> Response 200 (SavedReply j n))"
    then show ?thesis by simp
  next
    assume "\<exists>inputs name doc.
            validateInputs (scenario_body req_body) = Inr (inputs, [])
          \<and> Scenario_create env store name (inputs\<lparr>scenario_name := name\<rparr>) (simulate inputs)
              = Some (doc, store')
          \<and> Response 200 (SavedReply i nm)
              = Response 200 (SavedReply (doc_id doc) (doc_scenario_name doc))"
    then obtain inputs name doc where
      v: "validateInputs (scenario_body req_body) = Inr (inputs, [])"
      and c: "Scenario_create env store name (inputs\<lparr>scenario_name := name\<rparr>) (simulate inputs)
            = Some (doc, store')"
      and i: "i = doc_id doc" and nm: "nm = doc_scenario_name doc"
      by auto
    note f = Scenario_create_Some [OF c]
    show ?thesis
      by (rule exI [of _ inputs], rule exI [of _ doc]) (simp add: v i nm f(2,3,4,5))
  qed
qed


lemma reachable_consistent:
  "reachable store \<Longrightarrow> \<forall>d \<in> set store. doc_results d = simulate (doc_inputs d)"
proof (induction rule: reachable.induct)
  case empty_store
  show ?case by simp
next
  case (saved store env req_body r store')
  from post_scenarios_store [OF saved.hyps(2)] saved.IH show ?case by auto
next
  case (deleted store i r store')
  have "set store' \<subseteq> set store"
    using deleted.hyps(2) by (auto simp: delete_scenario_def split: if_splits)
  with deleted.IH show ?case by blast
qed

lemma string_of_nat_1: "string_of_nat 1 = ''1''"
  by simp

lemma post_scenarios_example:
  "post_scenarios example_env [] (JObj [(''inputs'', canonical_body)]) =
     (Response 200 (SavedReply ''a1'' ''Scenario 1''), [example_doc])"
proof -
  have b: "scenario_body (JObj [(''inputs'', canonical_body)]) = canonical_body"
    by (simp add: scenario_body_def own_def get_prop_def truthy_def canonical_body_def)
  have n: "scenario_name canonical_input = []"
    by (simp add: canonical_input_def)
  show ?thesis
    by (simp add: post_scenarios_def b validate_canonical_body n trim_def countDocuments_def
        Scenario_create_def example_env_def example_doc_def string_of_nat_1 Let_def)
qed


text \<open>
  Claim C8. Every scenario that \<open>POST /scenarios\<close> has persisted satisfies
  \<open>results = simulate inputs\<close> for the inputs stored with it, also when the stored name is the
  generated default; and after a successful save, loading the scenario by the returned
  identifier gives the validated inputs (under the saved name) and the results computed
  from them at save time.
\<close>

theorem saved_scenarios_consistent:
  "(reachable store \<longrightarrow> (\<forall>d \<in> set store. doc_results d = simulate (doc_inputs d)))
   \<and> (post_scenarios env store0 req_body = (Response 200 (SavedReply i nm), store') \<longrightarrow>
        (\<exists>inputs d.
            validateInputs (scenario_body req_body) = Inr (inputs, [])
          \<and> get_scenario store' i = Response 200 (ScenarioReply d)
          \<and> doc_inputs d = inputs\<lparr>scenario_name := nm\<rparr>
          \<and> doc_results d = simulate inputs
          \<and> doc_results d = simulate (doc_inputs d)))"
proof (intro conjI impI)
  assume "reachable store"
  then show "\<forall>d \<in> set store. doc_results d = simulate (doc_inputs d)"
    by (rule reachable_consistent)
next
  assume "post_scenarios env store0 req_body = (Response 200 (SavedReply i nm), store')"
  from post_scenarios_saved [OF this] obtain inputs d where
    "validateInputs (scenario_body req_body) = Inr (inputs, [])"
    "findById store' i = Some d" "doc_inputs d = inputs\<lparr>scenario_name := nm\<rparr>"
    "doc_results d = simulate inputs"
    by blast
  then show "\<exists>inputs d.
            validateInputs (scenario_body req_body) = Inr (inputs, [])
          \<and> get_scenario store' i = Response 200 (ScenarioReply d)
          \<and> doc_inputs d = inputs\<lparr>scenario_name := nm\<rparr>
          \<and> doc_results d = simulate inputs
          \<and> doc_results d = simulate (doc_inputs d)"
    by (intro exI [of _ inputs] exI [of _ d]) (simp add: get_scenario_def simulate_scenario_name)
qed

theorem saved_scenarios_consistent_witness:
  "reachable [example_doc]
   \<and> doc_results example_doc = simulate (doc_inputs example_doc)
   \<and> post_scenarios example_env [] (JObj [(''inputs'', canonical_body)]) =
       (Response 200 (SavedReply ''a1'' ''Scenario 1''), [example_doc])
   \<and> get_scenario [example_doc] ''a1'' = Response 200 (ScenarioReply example_doc)
   \<and> doc_inputs example_doc = canonical_input\<lparr>scenario_name := ''Scenario 1''\<rparr>
   \<and> doc_results example_doc = simulate canonical_input"
proof -
  have r: "reachable [example_doc]"
    using reachable.saved [OF reachable.empty_store post_scenarios_example] .
  have g: "get_scenario [example_doc] ''a1'' = Response 200 (ScenarioReply example_doc)"
    by (simp add: get_scenario_def findById_def example_doc_def)
  show ?thesis
    using saved_scenarios_consistent
        [of "[example_doc]" example_env "[]" "JObj [(''inputs'', canonical_body)]"
          "''a1''" "''Scenario 1''" "[example_doc]"]
      r g post_scenarios_example
    by (simp add: example_doc_def)
qed

end
